theory Spec2Isabelle
  imports Main "HOL-Library.Sublist"
begin

section \<open>Early decoding of Terraform modules\<close>

text \<open>
  A shallow embedding of \<^verbatim>\<open>earlydecoder/load_module.go\<close> and of
  \<^verbatim>\<open>module.ModuleSource\<close>. Go strings are byte sequences and are modelled as
  \<^typ>\<open>string\<close>; Go maps are partial functions; a Go panic is a value of type
  \<open>panic\<close>, returned on the left of a sum.
\<close>

subsection \<open>Diagnostics of the HCL library\<close>

text \<open>
  \<^verbatim>\<open>hcl.Pos\<close>, \<^verbatim>\<open>hcl.Range\<close>, \<^verbatim>\<open>hcl.DiagnosticSeverity\<close> and the fields of
  \<^verbatim>\<open>hcl.Diagnostic\<close> that the decoder sets.
\<close>

record Pos =
  Line :: int
  Column :: int
  Byte :: int

record Range =
  Filename :: string
  Start :: Pos
  End :: Pos

datatype DiagnosticSeverity = DiagInvalid | DiagError | DiagWarning

record Diagnostic =
  Severity :: DiagnosticSeverity
  Summary :: string
  Detail :: string
  Subject :: "Range option"

type_synonym Diagnostics = "Diagnostic list"

text \<open>\<^verbatim>\<open>Diagnostics.HasErrors\<close>: some diagnostic has severity \<^verbatim>\<open>DiagError\<close>.\<close>

fun HasErrors :: "Diagnostics \<Rightarrow> bool" where
  "HasErrors [] = False"
| "HasErrors (d # ds) = (if Severity d = DiagError then True else HasErrors ds)"

subsection \<open>Traversals and expressions\<close>

text \<open>
  \<^verbatim>\<open>hcl.Traversal\<close> is a slice of steps; the decoder tells a root step and an
  attribute step from the others. The key of an index step is not inspected and is kept
  as a string.
\<close>

datatype Traverser =
    TraverseRoot string
  | TraverseAttr string
  | TraverseIndex string
  | TraverseSplat

type_synonym Traversal = "Traverser list"

datatype panic = IndexOutOfRange | RelativeTraversal

text \<open>
  \<^verbatim>\<open>Traversal.RootName\<close> of the HCL library panics on a traversal that does not
  start with a root step.
\<close>

fun RootName :: "Traversal \<Rightarrow> panic + string" where
  "RootName (TraverseRoot n # _) = Inr n"
| "RootName _ = Inl RelativeTraversal"

text \<open>
  An expression is opaque to the decoder: it is only handed to the HCL library. The
  record holds what the library answers for it:
  \<^item> \<open>AbsTraversalForExpr\<close>: the traversal and the diagnostics of
    \<^verbatim>\<open>hcl.AbsTraversalForExpr(expr)\<close>;
  \<^item> \<open>DecodeExpression\<close>: the content of a string variable that was empty before
    \<^verbatim>\<open>gohcl.DecodeExpression(expr, nil, &v)\<close>, and the diagnostics of that call
    (every call site of the decoder passes a fresh, empty string);
  \<^item> \<open>ExprRange\<close>: \<^verbatim>\<open>expr.Range()\<close>.
\<close>

record Expression =
  AbsTraversalForExpr :: "Traversal \<times> Diagnostics"
  DecodeExpression :: "string \<times> Diagnostics"
  ExprRange :: Range

record Attribute =
  Expr :: Expression

subsection \<open>The decoded module\<close>

record ProviderRef =
  LocalName :: string
  Alias :: string

record ModuleSource =
  Source :: string
  Name :: string

record providerRequirement =
  Source :: string
  VersionConstraints :: "string list"

record providerConfig =
  Name :: string
  Alias :: string

record resource =
  Type :: string
  Name :: string
  Provider :: ProviderRef

record dataSource =
  Type :: string
  Name :: string
  Provider :: ProviderRef

record decodedModule =
  RequiredCore :: "string list"
  ProviderRequirements :: "string \<rightharpoonup> providerRequirement"
  ProviderConfigs :: "string \<rightharpoonup> providerConfig"
  Resources :: "string \<rightharpoonup> resource"
  DataSources :: "string \<rightharpoonup> dataSource"
  ModuleSources :: "string \<rightharpoonup> ModuleSource"

definition newDecodedModule :: decodedModule where
  "newDecodedModule =
     \<lparr>RequiredCore = [], ProviderRequirements = Map.empty, ProviderConfigs = Map.empty,
      Resources = Map.empty, DataSources = Map.empty, ModuleSources = Map.empty\<rparr>"

subsection \<open>Parts of the repository and of its libraries that the decoder calls\<close>

text \<open>
  The decoder calls functions whose code is not part of the two files embedded here.
  They are parameters of the model:
  \<^item> \<open>ParseTraversalAbs\<close>: the traversal and the diagnostics of
    \<^verbatim>\<open>hclsyntax.ParseTraversalAbs([]byte(s), "", hcl.Pos{})\<close>;
  \<^item> \<open>Quote\<close>: the text \<^verbatim>\<open>fmt.Sprintf("%q", s)\<close> produces;
  \<^item> \<open>resourceMapKey\<close>, \<open>dataSourceMapKey\<close>: the methods \<^verbatim>\<open>MapKey\<close> of
    \<^verbatim>\<open>*resource\<close> and \<^verbatim>\<open>*dataSource\<close>.
\<close>

record env =
  ParseTraversalAbs :: "string \<Rightarrow> Traversal \<times> Diagnostics"
  Quote :: "string \<Rightarrow> string"
  resourceMapKey :: "resource \<Rightarrow> string"
  dataSourceMapKey :: "dataSource \<Rightarrow> string"

text \<open>
  Modelled from the spec: \<^verbatim>\<open>inferProviderNameFromType\<close>, which the decoder calls and
  whose code is not in the embedded files. The words of the specification: "given a
  resource/data-source type string, return the substring preceding its first \<^verbatim>\<open>_\<close>
  character, or the full string if no \<^verbatim>\<open>_\<close> is present".
\<close>

fun indexByte :: "string \<Rightarrow> char \<Rightarrow> nat option" where
  "indexByte [] c = None"
| "indexByte (x # xs) c =
     (if x = c then Some 0 else map_option Suc (indexByte xs c))"

definition inferProviderNameFromType :: "string \<Rightarrow> string" where
  "inferProviderNameFromType typeName =
     (case indexByte typeName (CHR ''_'') of
        Some underPos \<Rightarrow> take underPos typeName
      | None \<Rightarrow> typeName)"

subsection \<open>\<^verbatim>\<open>ModuleSource.MapKey\<close>\<close>

definition MapKey :: "ModuleSource \<Rightarrow> string" where
  "MapKey r = ''module.'' @ ModuleSource.Name r"

subsection \<open>\<^verbatim>\<open>decodeProviderAttribute\<close>\<close>

definition invalidProviderReference :: "Range \<Rightarrow> Diagnostic" where
  "invalidProviderReference rng =
     \<lparr>Severity = DiagError,
      Summary = ''Invalid provider reference'',
      Detail = ''Provider argument requires a provider name followed by an optional alias, like ''
        @ [CHR 0x22] @ ''aws.foo'' @ [CHR 0x22] @ ''.'',
      Subject = Some rng\<rparr>"

text \<open>
  The first attempt reads the expression as a traversal. When it reports an error its
  partial result is dropped and the expression is decoded as a string, which is parsed
  as a traversal; a parse that reports an error leaves no traversal. The diagnostics of
  the attempts are not returned.
\<close>

definition decodeProviderAttribute ::
  "env \<Rightarrow> Attribute \<Rightarrow> panic + (ProviderRef \<times> Diagnostics)" where
  "decodeProviderAttribute E attr =
     (let diags = [];
          (traversal0, travDiags) = AbsTraversalForExpr (Expr attr);
          traversal =
            (if HasErrors travDiags then
               (let (travStr, valDiags) = DecodeExpression (Expr attr) in
                if \<not> HasErrors valDiags then
                  (let (traversal1, strDiags) = ParseTraversalAbs E travStr in
                   if HasErrors strDiags then [] else traversal1)
                else [])
             else traversal0)
      in
        if length traversal > 0 then
          (case RootName traversal of
             Inl p \<Rightarrow> Inl p
           | Inr providerName \<Rightarrow>
               (let alias =
                  (if length traversal > 1 then
                     (case traversal ! 1 of TraverseAttr n \<Rightarrow> n | _ \<Rightarrow> '''')
                   else '''')
                in Inr (\<lparr>LocalName = providerName, Alias = alias\<rparr>, diags)))
        else
          Inr (\<lparr>LocalName = '''', Alias = ''''\<rparr>,
               [invalidProviderReference (ExprRange (Expr attr))]))"

subsection \<open>The document handed to the decoder\<close>

text \<open>
  The decoder reads a file only through \<^verbatim>\<open>Body.PartialContent\<close> with a schema of
  its own, so a file is modelled by what these calls return.
  \<^item> \<open>File\<close>: the blocks and the diagnostics of
    \<^verbatim>\<open>file.Body.PartialContent(rootSchema)\<close>.
  \<^item> \<open>Block\<close>: the type and the labels of a top-level block, and the attributes, the
    nested blocks and the diagnostics of \<^verbatim>\<open>block.Body.PartialContent\<close> with the
    schema of the block's type.
  \<^item> \<open>NestedBlock\<close>: a block inside a \<^verbatim>\<open>terraform\<close> block, with its type, its
    \<^verbatim>\<open>DefRange\<close> and what \<^verbatim>\<open>decodeRequiredProvidersBlock\<close> returns for it: the
    entries of the requirement map, in the order in which the \<^verbatim>\<open>range\<close> loop visits
    them, and the diagnostics.
\<close>

record NestedBlock =
  Type :: string
  DefRange :: Range
  decodeRequiredProvidersBlock :: "(string \<times> providerRequirement) list \<times> Diagnostics"

record Block =
  Type :: string
  Labels :: "string list"
  Attributes :: "string \<rightharpoonup> Attribute"
  Blocks :: "NestedBlock list"
  contentDiags :: Diagnostics

record File =
  Blocks :: "Block list"
  contentDiags :: Diagnostics

text \<open>Indexing a slice of labels panics out of range.\<close>

definition index :: "string list \<Rightarrow> nat \<Rightarrow> panic + string" where
  "index labels i = (if i < length labels then Inr (labels ! i) else Inl IndexOutOfRange)"

subsection \<open>\<^verbatim>\<open>loadModuleFromFile\<close>: the \<^verbatim>\<open>terraform\<close> block\<close>

definition multipleProviderSources ::
  "env \<Rightarrow> Range \<Rightarrow> string \<Rightarrow> string \<Rightarrow> string \<Rightarrow> Diagnostic" where
  "multipleProviderSources E defRange name source reqSource =
     \<lparr>Severity = DiagError,
      Summary = ''Multiple provider source attributes'',
      Detail = ''Found multiple source attributes for provider '' @ name @ '': ''
        @ Quote E source @ '', '' @ Quote E reqSource,
      Subject = Some defRange\<rparr>"

text \<open>
  The body of the loop over the requirements of one \<^verbatim>\<open>required_providers\<close> block
  (lines 70 to 88). The map holds pointers: the update of the source and the append are
  made to the requirement the map holds under \<open>name\<close>.
\<close>

definition mergeRequirement ::
  "env \<Rightarrow> Range \<Rightarrow> decodedModule \<times> Diagnostics \<Rightarrow> string \<times> providerRequirement
   \<Rightarrow> decodedModule \<times> Diagnostics" where
  "mergeRequirement E defRange st entry =
     (let (md, diags) = st; (name, req) = entry in
      case ProviderRequirements md name of
        None \<Rightarrow>
          (md\<lparr>ProviderRequirements := (ProviderRequirements md)(name \<mapsto> req)\<rparr>, diags)
      | Some existing \<Rightarrow>
          (let (existing1, diags1) =
             (if providerRequirement.Source req \<noteq> '''' then
                (let source = providerRequirement.Source existing in
                 if source \<noteq> '''' \<and> source \<noteq> providerRequirement.Source req then
                   (existing,
                    diags @ [multipleProviderSources E defRange name source
                               (providerRequirement.Source req)])
                 else
                   (existing\<lparr>providerRequirement.Source := providerRequirement.Source req\<rparr>,
                    diags))
              else (existing, diags));
               existing2 = existing1\<lparr>VersionConstraints :=
                 VersionConstraints existing1 @ VersionConstraints req\<rparr>
           in (md\<lparr>ProviderRequirements := (ProviderRequirements md)(name \<mapsto> existing2)\<rparr>,
               diags1)))"

text \<open>The body of the loop over the nested blocks (lines 64 to 91).\<close>

definition loadNestedBlock ::
  "env \<Rightarrow> decodedModule \<times> Diagnostics \<Rightarrow> NestedBlock \<Rightarrow> decodedModule \<times> Diagnostics" where
  "loadNestedBlock E st innerBlock =
     (let (md, diags) = st in
      if NestedBlock.Type innerBlock = ''required_providers'' then
        (let (reqs, reqsDiags) = decodeRequiredProvidersBlock innerBlock in
         foldl (mergeRequirement E (DefRange innerBlock)) (md, diags @ reqsDiags) reqs)
      else (md, diags))"

definition loadTerraformBlock ::
  "env \<Rightarrow> Block \<Rightarrow> decodedModule \<times> Diagnostics \<Rightarrow> panic + (decodedModule \<times> Diagnostics)" where
  "loadTerraformBlock E block st =
     (let (md, diags0) = st;
          diags = diags0 @ Block.contentDiags block;
          st1 =
            (case Attributes block ''required_version'' of
               Some attr \<Rightarrow>
                 (let (version, valDiags) = DecodeExpression (Expr attr) in
                  if \<not> HasErrors valDiags then
                    (md\<lparr>RequiredCore := RequiredCore md @ [version]\<rparr>, diags @ valDiags)
                  else (md, diags @ valDiags))
             | None \<Rightarrow> (md, diags))
      in Inr (foldl (loadNestedBlock E) st1 (Block.Blocks block)))"

subsection \<open>\<^verbatim>\<open>loadModuleFromFile\<close>: the other blocks\<close>

text \<open>
  The \<^verbatim>\<open>provider\<close> block (lines 93 to 124). The alias is stored as decoded even
  when the decoding reports an error; only the key depends on the absence of errors.
\<close>

definition loadProviderBlock ::
  "env \<Rightarrow> Block \<Rightarrow> decodedModule \<times> Diagnostics \<Rightarrow> panic + (decodedModule \<times> Diagnostics)" where
  "loadProviderBlock E block st =
     (let (md, diags0) = st;
          diags = diags0 @ Block.contentDiags block
      in
        case index (Labels block) 0 of
          Inl p \<Rightarrow> Inl p
        | Inr name \<Rightarrow>
            (let reqs1 =
               (case ProviderRequirements md name of
                  None \<Rightarrow> (ProviderRequirements md)
                    (name \<mapsto> \<lparr>providerRequirement.Source = '''', VersionConstraints = []\<rparr>)
                | Some _ \<Rightarrow> ProviderRequirements md);
                 (reqs2, diags1) =
               (case Attributes block ''version'' of
                  Some attr \<Rightarrow>
                    (let (version, valDiags) = DecodeExpression (Expr attr) in
                     if \<not> HasErrors valDiags then
                       (case reqs1 name of
                          Some r \<Rightarrow>
                            (reqs1(name \<mapsto> r\<lparr>VersionConstraints :=
                               VersionConstraints r @ [version]\<rparr>), diags @ valDiags)
                        | None \<Rightarrow> (reqs1, diags @ valDiags))
                     else (reqs1, diags @ valDiags))
                | None \<Rightarrow> (reqs1, diags));
                 (providerKey, alias, diags2) =
               (case Attributes block ''alias'' of
                  Some attr \<Rightarrow>
                    (let (alias, valDiags) = DecodeExpression (Expr attr) in
                     if \<not> HasErrors valDiags \<and> alias \<noteq> '''' then
                       (name @ ''.'' @ alias, alias, diags1 @ valDiags)
                     else (name, alias, diags1 @ valDiags))
                | None \<Rightarrow> (name, '''', diags1))
             in Inr (md\<lparr>ProviderRequirements := reqs2,
                        ProviderConfigs := (ProviderConfigs md)
                          (providerKey \<mapsto> \<lparr>providerConfig.Name = name,
                                           providerConfig.Alias = alias\<rparr>)\<rparr>,
                     diags2)))"

text \<open>
  The \<^verbatim>\<open>data\<close> block (lines 127 to 147). The map holds a pointer to the record, which
  is stored before its provider is set: the later assignment to \<^verbatim>\<open>ds.Provider\<close>
  changes the record the map holds under the key.
\<close>

definition loadDataBlock ::
  "env \<Rightarrow> Block \<Rightarrow> decodedModule \<times> Diagnostics \<Rightarrow> panic + (decodedModule \<times> Diagnostics)" where
  "loadDataBlock E block st =
     (let (md, diags0) = st;
          diags = diags0 @ Block.contentDiags block
      in
        case index (Labels block) 0 of
          Inl p \<Rightarrow> Inl p
        | Inr type \<Rightarrow>
        case index (Labels block) 1 of
          Inl p \<Rightarrow> Inl p
        | Inr name \<Rightarrow>
            (let ds = \<lparr>dataSource.Type = type, dataSource.Name = name,
                       dataSource.Provider = \<lparr>LocalName = '''', ProviderRef.Alias = ''''\<rparr>\<rparr>;
                 key = dataSourceMapKey E ds;
                 md1 = md\<lparr>DataSources := (DataSources md)(key \<mapsto> ds)\<rparr>
             in
               case Attributes block ''provider'' of
                 Some attr \<Rightarrow>
                   (case decodeProviderAttribute E attr of
                      Inl p \<Rightarrow> Inl p
                    | Inr (ref, aDiags) \<Rightarrow>
                        Inr (md1\<lparr>DataSources := (DataSources md1)
                               (key \<mapsto> ds\<lparr>dataSource.Provider := ref\<rparr>)\<rparr>,
                             diags @ aDiags))
               | None \<Rightarrow>
                   Inr (md1\<lparr>DataSources := (DataSources md1)
                          (key \<mapsto> ds\<lparr>dataSource.Provider :=
                             \<lparr>LocalName = inferProviderNameFromType (dataSource.Type ds),
                              ProviderRef.Alias = ''''\<rparr>\<rparr>)\<rparr>,
                        diags)))"

text \<open>The \<^verbatim>\<open>resource\<close> block (lines 150 to 170), with the same pointer.\<close>

definition loadResourceBlock ::
  "env \<Rightarrow> Block \<Rightarrow> decodedModule \<times> Diagnostics \<Rightarrow> panic + (decodedModule \<times> Diagnostics)" where
  "loadResourceBlock E block st =
     (let (md, diags0) = st;
          diags = diags0 @ Block.contentDiags block
      in
        case index (Labels block) 0 of
          Inl p \<Rightarrow> Inl p
        | Inr type \<Rightarrow>
        case index (Labels block) 1 of
          Inl p \<Rightarrow> Inl p
        | Inr name \<Rightarrow>
            (let r = \<lparr>resource.Type = type, resource.Name = name,
                      resource.Provider = \<lparr>LocalName = '''', ProviderRef.Alias = ''''\<rparr>\<rparr>;
                 key = resourceMapKey E r;
                 md1 = md\<lparr>Resources := (Resources md)(key \<mapsto> r)\<rparr>
             in
               case Attributes block ''provider'' of
                 Some attr \<Rightarrow>
                   (case decodeProviderAttribute E attr of
                      Inl p \<Rightarrow> Inl p
                    | Inr (ref, aDiags) \<Rightarrow>
                        Inr (md1\<lparr>Resources := (Resources md1)
                               (key \<mapsto> r\<lparr>resource.Provider := ref\<rparr>)\<rparr>,
                             diags @ aDiags))
               | None \<Rightarrow>
                   Inr (md1\<lparr>Resources := (Resources md1)
                          (key \<mapsto> r\<lparr>resource.Provider :=
                             \<lparr>LocalName = inferProviderNameFromType (resource.Type r),
                              ProviderRef.Alias = ''''\<rparr>\<rparr>)\<rparr>,
                        diags)))"

text \<open>
  The \<^verbatim>\<open>module\<close> block (lines 172 to 182). The source is decoded into the field of
  the record the map already holds, whatever diagnostics the decoding returns.
\<close>

definition loadModuleBlock ::
  "env \<Rightarrow> Block \<Rightarrow> decodedModule \<times> Diagnostics \<Rightarrow> panic + (decodedModule \<times> Diagnostics)" where
  "loadModuleBlock E block st =
     (let (md, diags0) = st;
          diags = diags0 @ Block.contentDiags block
      in
        case index (Labels block) 0 of
          Inl p \<Rightarrow> Inl p
        | Inr name \<Rightarrow>
            (let ms = \<lparr>ModuleSource.Source = '''', ModuleSource.Name = name\<rparr>;
                 key = MapKey ms;
                 md1 = md\<lparr>ModuleSources := (ModuleSources md)(key \<mapsto> ms)\<rparr>
             in
               case Attributes block ''source'' of
                 Some attr \<Rightarrow>
                   (let (source, valDiags) = DecodeExpression (Expr attr) in
                    Inr (md1\<lparr>ModuleSources := (ModuleSources md1)
                           (key \<mapsto> ms\<lparr>ModuleSource.Source := source\<rparr>)\<rparr>,
                         diags @ valDiags))
               | None \<Rightarrow> Inr (md1, diags)))"

text \<open>The \<^verbatim>\<open>switch\<close> on the type of a block; a block of another type changes nothing.\<close>

definition loadBlock ::
  "env \<Rightarrow> Block \<Rightarrow> decodedModule \<times> Diagnostics \<Rightarrow> panic + (decodedModule \<times> Diagnostics)" where
  "loadBlock E block st =
     (if Block.Type block = ''terraform'' then loadTerraformBlock E block st
      else if Block.Type block = ''provider'' then loadProviderBlock E block st
      else if Block.Type block = ''data'' then loadDataBlock E block st
      else if Block.Type block = ''resource'' then loadResourceBlock E block st
      else if Block.Type block = ''module'' then loadModuleBlock E block st
      else Inr st)"

text \<open>The loop over the blocks of the file; a panic ends it.\<close>

fun loadBlocks ::
  "env \<Rightarrow> Block list \<Rightarrow> decodedModule \<times> Diagnostics \<Rightarrow> panic + (decodedModule \<times> Diagnostics)" where
  "loadBlocks E [] st = Inr st"
| "loadBlocks E (block # blocks) st =
     (case loadBlock E block st of
        Inl p \<Rightarrow> Inl p
      | Inr st1 \<Rightarrow> loadBlocks E blocks st1)"

text \<open>
  The accumulator is passed by pointer and changed in place; the model returns it with
  the diagnostics.
\<close>

definition loadModuleFromFile ::
  "env \<Rightarrow> File \<Rightarrow> decodedModule \<Rightarrow> panic + (decodedModule \<times> Diagnostics)" where
  "loadModuleFromFile E file md = loadBlocks E (File.Blocks file) (md, File.contentDiags file)"

section \<open>Notions used in the statements\<close>

text \<open>
  The version a \<^verbatim>\<open>terraform\<close> block contributes to the required-core sequence: the
  decoded string of its \<^verbatim>\<open>required_version\<close> attribute when the decoding reports
  no error, and nothing otherwise.
\<close>

definition requiredVersionOf :: "Block \<Rightarrow> string list" where
  "requiredVersionOf block =
     (case Attributes block ''required_version'' of
        Some attr \<Rightarrow>
          (if \<not> HasErrors (snd (DecodeExpression (Expr attr)))
           then [fst (DecodeExpression (Expr attr))] else [])
      | None \<Rightarrow> [])"

definition requiredVersions :: "Block list \<Rightarrow> string list" where
  "requiredVersions blocks =
     concat (map requiredVersionOf (filter (\<lambda>b. Block.Type b = ''terraform'') blocks))"

text \<open>The parts of the accumulator that the merge of requirements leaves alone.\<close>

definition untouched ::
  "decodedModule \<Rightarrow> string list \<times> (string \<rightharpoonup> providerConfig) \<times> (string \<rightharpoonup> resource) \<times>
     (string \<rightharpoonup> dataSource) \<times> (string \<rightharpoonup> ModuleSource)" where
  "untouched md =
     (RequiredCore md, ProviderConfigs md, Resources md, DataSources md, ModuleSources md)"

text \<open>
  A requirement map grows: every name stays, and the constraints of a name are a
  prefix of its later constraints.
\<close>

definition reqsGrow ::
  "(string \<rightharpoonup> providerRequirement) \<Rightarrow> (string \<rightharpoonup> providerRequirement) \<Rightarrow> bool" where
  "reqsGrow R R' \<longleftrightarrow>
     (\<forall>n r. R n = Some r \<longrightarrow>
        (\<exists>r'. R' n = Some r' \<and> prefix (VersionConstraints r) (VersionConstraints r')))"

text \<open>
  The caller decodes the files of one module one after the other into the same
  accumulator; the diagnostics of the calls are collected in order, and a panic ends the
  sequence.
\<close>

fun loadModuleFromFiles ::
  "env \<Rightarrow> File list \<Rightarrow> decodedModule \<Rightarrow> panic + (decodedModule \<times> Diagnostics)" where
  "loadModuleFromFiles E [] md = Inr (md, [])"
| "loadModuleFromFiles E (file # files) md =
     (case loadModuleFromFile E file md of
        Inl p \<Rightarrow> Inl p
      | Inr (md1, diags1) \<Rightarrow>
          (case loadModuleFromFiles E files md1 of
             Inl p \<Rightarrow> Inl p
           | Inr (md2, diags2) \<Rightarrow> Inr (md2, diags1 @ diags2)))"

text \<open>
  The key under which a block stores a resource, a data source or a module call, if it
  is a block of that type with enough labels.
\<close>

definition resourceKey :: "env \<Rightarrow> Block \<Rightarrow> string option" where
  "resourceKey E block =
     (if Block.Type block = ''resource'' then
        (case Labels block of
           t # n # _ \<Rightarrow>
             Some (resourceMapKey E \<lparr>resource.Type = t, resource.Name = n,
                     resource.Provider = \<lparr>LocalName = '''', ProviderRef.Alias = ''''\<rparr>\<rparr>)
         | _ \<Rightarrow> None)
      else None)"

definition dataSourceKey :: "env \<Rightarrow> Block \<Rightarrow> string option" where
  "dataSourceKey E block =
     (if Block.Type block = ''data'' then
        (case Labels block of
           t # n # _ \<Rightarrow>
             Some (dataSourceMapKey E \<lparr>dataSource.Type = t, dataSource.Name = n,
                     dataSource.Provider = \<lparr>LocalName = '''', ProviderRef.Alias = ''''\<rparr>\<rparr>)
         | _ \<Rightarrow> None)
      else None)"

definition moduleKey :: "Block \<Rightarrow> string option" where
  "moduleKey block =
     (if Block.Type block = ''module'' then
        (case Labels block of n # _ \<Rightarrow> Some (''module.'' @ n) | _ \<Rightarrow> None)
      else None)"

text \<open>
  What the schemas and the library guarantee to the decoder: a \<^verbatim>\<open>provider\<close> or
  \<^verbatim>\<open>module\<close> block has a label, a \<^verbatim>\<open>data\<close> or \<^verbatim>\<open>resource\<close> block has two, and a
  traversal that the library returns for a \<^verbatim>\<open>provider\<close> attribute starts with a root
  step when it has a step.
\<close>

definition rooted :: "Traversal \<Rightarrow> bool" where
  "rooted t = (case t of [] \<Rightarrow> True | TraverseRoot _ # _ \<Rightarrow> True | _ \<Rightarrow> False)"

definition rootedAttribute :: "env \<Rightarrow> Attribute option \<Rightarrow> bool" where
  "rootedAttribute E attr =
     (case attr of
        None \<Rightarrow> True
      | Some a \<Rightarrow>
          rooted (fst (AbsTraversalForExpr (Expr a)))
          \<and> rooted (fst (ParseTraversalAbs E (fst (DecodeExpression (Expr a))))))"

definition wellFormed :: "env \<Rightarrow> Block \<Rightarrow> bool" where
  "wellFormed E block =
     (if Block.Type block = ''provider'' \<or> Block.Type block = ''module'' then
        1 \<le> length (Labels block)
      else if Block.Type block = ''data'' \<or> Block.Type block = ''resource'' then
        2 \<le> length (Labels block) \<and> rootedAttribute E (Attributes block ''provider'')
      else True)"

section \<open>Sample documents\<close>

text \<open>
  Concrete inputs on which the theorems below are instantiated: a source range, an
  error diagnostic, the answers of the library for the expressions \<^verbatim>\<open>aws.east\<close>,
  \<^verbatim>\<open>"aws.east"\<close> and \<^verbatim>\<open>5\<close>, and an environment that parses two reference strings,
  quotes without escaping and builds keys from the type and the name.
\<close>

definition sampleRange :: Range where
  "sampleRange =
     \<lparr>Filename = ''main.tf'',
      Start = \<lparr>Line = 1, Column = 1, Byte = 0\<rparr>,
      End = \<lparr>Line = 1, Column = 9, Byte = 8\<rparr>\<rparr>"

definition sampleError :: "string \<Rightarrow> Diagnostic" where
  "sampleError summary =
     \<lparr>Severity = DiagError, Summary = summary, Detail = '''', Subject = Some sampleRange\<rparr>"

definition awsEast :: Traversal where
  "awsEast = [TraverseRoot ''aws'', TraverseAttr ''east'']"

definition bareAttr :: Attribute where
  "bareAttr =
     \<lparr>Expr = \<lparr>AbsTraversalForExpr = (awsEast, []),
              DecodeExpression = ('''', [sampleError ''Variables not allowed'']),
              ExprRange = sampleRange\<rparr>\<rparr>"

definition quotedAttr :: Attribute where
  "quotedAttr =
     \<lparr>Expr = \<lparr>AbsTraversalForExpr = ([], [sampleError ''Invalid expression'']),
              DecodeExpression = (''aws.east'', []),
              ExprRange = sampleRange\<rparr>\<rparr>"

definition numberAttr :: Attribute where
  "numberAttr =
     \<lparr>Expr = \<lparr>AbsTraversalForExpr = ([], [sampleError ''Invalid expression'']),
              DecodeExpression = (''5'', []),
              ExprRange = sampleRange\<rparr>\<rparr>"

definition sampleEnv :: env where
  "sampleEnv =
     \<lparr>ParseTraversalAbs = (\<lambda>s.
        if s = ''aws.east'' then (awsEast, [])
        else if s = ''aws'' then ([TraverseRoot ''aws''], [])
        else ([], [sampleError ''Invalid character''])),
      Quote = (\<lambda>s. [CHR 0x22] @ s @ [CHR 0x22]),
      resourceMapKey = (\<lambda>r. resource.Type r @ ''.'' @ resource.Name r),
      dataSourceMapKey = (\<lambda>r. ''data.'' @ dataSource.Type r @ ''.'' @ dataSource.Name r)\<rparr>"

definition requiredProviders :: "(string \<times> providerRequirement) list \<Rightarrow> NestedBlock" where
  "requiredProviders reqs =
     \<lparr>NestedBlock.Type = ''required_providers'', DefRange = sampleRange,
      decodeRequiredProvidersBlock = (reqs, [])\<rparr>"

definition terraformBlock :: "Attribute option \<Rightarrow> NestedBlock list \<Rightarrow> Block" where
  "terraformBlock version nested =
     \<lparr>Block.Type = ''terraform'', Labels = [],
      Attributes = (\<lambda>k. if k = ''required_version'' then version else None),
      Block.Blocks = nested, Block.contentDiags = []\<rparr>"

definition hashicorpAws :: providerRequirement where
  "hashicorpAws =
     \<lparr>providerRequirement.Source = ''hashicorp/aws'', VersionConstraints = [''>= 2.0'']\<rparr>"

definition exampleAws :: providerRequirement where
  "exampleAws =
     \<lparr>providerRequirement.Source = ''example/aws'', VersionConstraints = [''~> 3.0'']\<rparr>"

definition awsModule :: decodedModule where
  "awsModule = newDecodedModule\<lparr>ProviderRequirements := [''aws'' \<mapsto> hashicorpAws]\<rparr>"

definition resourceBlock :: "string \<Rightarrow> string \<Rightarrow> Attribute option \<Rightarrow> Block" where
  "resourceBlock type name provider =
     \<lparr>Block.Type = ''resource'', Labels = [type, name],
      Attributes = (\<lambda>k. if k = ''provider'' then provider else None),
      Block.Blocks = [], Block.contentDiags = []\<rparr>"

definition dataBlock :: "string \<Rightarrow> string \<Rightarrow> Attribute option \<Rightarrow> Block" where
  "dataBlock type name provider =
     \<lparr>Block.Type = ''data'', Labels = [type, name],
      Attributes = (\<lambda>k. if k = ''provider'' then provider else None),
      Block.Blocks = [], Block.contentDiags = []\<rparr>"

definition moduleBlock :: "string \<Rightarrow> Attribute option \<Rightarrow> Block" where
  "moduleBlock name source =
     \<lparr>Block.Type = ''module'', Labels = [name],
      Attributes = (\<lambda>k. if k = ''source'' then source else None),
      Block.Blocks = [], Block.contentDiags = []\<rparr>"

definition literalAttr :: "string \<Rightarrow> Attribute" where
  "literalAttr s =
     \<lparr>Expr = \<lparr>AbsTraversalForExpr = ([], [sampleError ''Invalid expression'']),
              DecodeExpression = (s, []),
              ExprRange = sampleRange\<rparr>\<rparr>"

text \<open>
  The answers of the library for the template \<^verbatim>\<open>"a${null}"\<close>: the evaluation reports
  the null part as an error and yields the string "a", which the decoding assigns.
\<close>

definition nullPartAttr :: Attribute where
  "nullPartAttr =
     \<lparr>Expr = \<lparr>AbsTraversalForExpr = ([], [sampleError ''Invalid expression'']),
              DecodeExpression = (''a'', [sampleError ''Invalid template interpolation value'']),
              ExprRange = sampleRange\<rparr>\<rparr>"

text \<open>The answers of the library for a reference to a variable, which is not a literal.\<close>

definition variableAttr :: Attribute where
  "variableAttr =
     \<lparr>Expr = \<lparr>AbsTraversalForExpr = ([TraverseRoot ''var'', TraverseAttr ''v''], []),
              DecodeExpression = ('''', [sampleError ''Variables not allowed'']),
              ExprRange = sampleRange\<rparr>\<rparr>"

text \<open>
  A file with a required version, a requirement with a conflicting source, a provider
  configuration, and the resource \<^verbatim>\<open>aws_instance.web\<close> declared twice, the second
  time with the provider \<^verbatim>\<open>aws.east\<close>; and a second file, whose required version is
  not a literal and whose second block repeats the version of the first file.
\<close>

definition providerBlock :: "string \<Rightarrow> Attribute option \<Rightarrow> Attribute option \<Rightarrow> Block" where
  "providerBlock name version als =
     \<lparr>Block.Type = ''provider'', Labels = [name],
      Attributes = (\<lambda>k. if k = ''version'' then version
                         else if k = ''alias'' then als else None),
      Block.Blocks = [], Block.contentDiags = []\<rparr>"

definition mainFile :: File where
  "mainFile =
     \<lparr>File.Blocks =
        [terraformBlock (Some (literalAttr ''>= 0.12'')) [requiredProviders [(''aws'', exampleAws)]],
         providerBlock ''aws'' (Some (literalAttr ''~> 2.0'')) (Some (literalAttr ''east'')),
         resourceBlock ''aws_instance'' ''web'' None,
         moduleBlock ''m'' (Some (literalAttr ''./child'')),
         resourceBlock ''aws_instance'' ''web'' (Some bareAttr)],
      File.contentDiags = []\<rparr>"

definition versionsFile :: File where
  "versionsFile =
     \<lparr>File.Blocks =
        [terraformBlock (Some variableAttr) [],
         terraformBlock (Some (literalAttr ''>= 0.12'')) []],
      File.contentDiags = []\<rparr>"

text \<open>
  A data source and a module call declared twice, and an accumulator that holds a module
  call of an earlier file.
\<close>

definition redeclaredData :: File where
  "redeclaredData =
     \<lparr>File.Blocks = [dataBlock ''aws_ami'' ''x'' None,
                     dataBlock ''aws_ami'' ''x'' (Some quotedAttr)],
      File.contentDiags = []\<rparr>"

definition redeclaredModule :: File where
  "redeclaredModule =
     \<lparr>File.Blocks = [moduleBlock ''m'' (Some (literalAttr ''./a'')),
                     moduleBlock ''m'' (Some (literalAttr ''./b''))],
      File.contentDiags = []\<rparr>"

definition earlierModule :: decodedModule where
  "earlierModule =
     newDecodedModule\<lparr>ModuleSources :=
       [''module.m'' \<mapsto> \<lparr>ModuleSource.Source = ''./old'', ModuleSource.Name = ''m''\<rparr>]\<rparr>"

section \<open>Resolution of a provider reference\<close>

text \<open>
  C4. When neither attempt obtains a traversal with at least one step (the first attempt
  reports an error or yields no step, and the decoding as a string reports an error, or
  the parse of the decoded string reports an error or yields no step),
  \<^verbatim>\<open>decodeProviderAttribute\<close> returns the zero \<^verbatim>\<open>ProviderRef\<close> and exactly one
  diagnostic, of severity error, with summary "Invalid provider reference" and the range
  of the attribute's expression as its subject.
\<close>

theorem decodeProviderAttribute_invalid:
  assumes "HasErrors (snd (AbsTraversalForExpr (Expr attr)))
       \<or> fst (AbsTraversalForExpr (Expr attr)) = []"
    and "HasErrors (snd (DecodeExpression (Expr attr)))
       \<or> HasErrors (snd (ParseTraversalAbs E (fst (DecodeExpression (Expr attr)))))
       \<or> fst (ParseTraversalAbs E (fst (DecodeExpression (Expr attr)))) = []"
  shows "decodeProviderAttribute E attr =
     Inr (\<lparr>LocalName = '''', Alias = ''''\<rparr>,
          [\<lparr>Severity = DiagError,
            Summary = ''Invalid provider reference'',
            Detail = ''Provider argument requires a provider name followed by an optional alias, like ''
              @ [CHR 0x22] @ ''aws.foo'' @ [CHR 0x22] @ ''.'',
            Subject = Some (ExprRange (Expr attr))\<rparr>])"
proof -
  obtain t0 d0 where a: "AbsTraversalForExpr (Expr attr) = (t0, d0)"
    by (cases "AbsTraversalForExpr (Expr attr)")
  obtain s dv where b: "DecodeExpression (Expr attr) = (s, dv)"
    by (cases "DecodeExpression (Expr attr)")
  obtain t1 d1 where c: "ParseTraversalAbs E s = (t1, d1)"
    by (cases "ParseTraversalAbs E s")
  from assms a b c have h1: "HasErrors d0 \<or> t0 = []"
    and h2: "HasErrors dv \<or> HasErrors d1 \<or> t1 = []"
    by simp_all
  have "decodeProviderAttribute E attr =
     Inr (\<lparr>LocalName = '''', Alias = ''''\<rparr>, [invalidProviderReference (ExprRange (Expr attr))])"
    using h1 h2 by (auto simp: decodeProviderAttribute_def a b c)
  then show ?thesis by (simp add: invalidProviderReference_def)
qed

lemmas sample_attr_defs = sampleEnv_def bareAttr_def quotedAttr_def numberAttr_def
  awsEast_def sampleError_def

text \<open>The number literal \<^verbatim>\<open>5\<close>: no traversal, and the string "5" does not parse.\<close>

theorem decodeProviderAttribute_invalid_witness:
  "decodeProviderAttribute sampleEnv numberAttr =
     Inr (\<lparr>LocalName = '''', Alias = ''''\<rparr>,
          [\<lparr>Severity = DiagError,
            Summary = ''Invalid provider reference'',
            Detail = ''Provider argument requires a provider name followed by an optional alias, like ''
              @ [CHR 0x22] @ ''aws.foo'' @ [CHR 0x22] @ ''.'',
            Subject = Some sampleRange\<rparr>])"
  using decodeProviderAttribute_invalid [of numberAttr sampleEnv]
  by (simp add: sample_attr_defs)

text \<open>
  C5. When an attempt obtains a traversal that starts with a root step (the first
  attempt without error, or else the decoding as a string and the parse of the decoded
  string, both without error), \<^verbatim>\<open>decodeProviderAttribute\<close> returns the name of the
  root as \<^verbatim>\<open>LocalName\<close>, the name of the second step as \<^verbatim>\<open>Alias\<close> when there is
  a second step and it is an attribute step, the empty alias otherwise, and no
  diagnostic.
\<close>

theorem decodeProviderAttribute_resolved:
  assumes "(\<not> HasErrors (snd (AbsTraversalForExpr (Expr attr)))
              \<and> fst (AbsTraversalForExpr (Expr attr)) = TraverseRoot n # rest)
         \<or> (HasErrors (snd (AbsTraversalForExpr (Expr attr)))
              \<and> \<not> HasErrors (snd (DecodeExpression (Expr attr)))
              \<and> \<not> HasErrors (snd (ParseTraversalAbs E (fst (DecodeExpression (Expr attr)))))
              \<and> fst (ParseTraversalAbs E (fst (DecodeExpression (Expr attr))))
                  = TraverseRoot n # rest)"
  shows "decodeProviderAttribute E attr =
     Inr (\<lparr>LocalName = n,
           Alias = (case rest of TraverseAttr a # _ \<Rightarrow> a | _ \<Rightarrow> '''')\<rparr>, [])"
proof -
  obtain t0 d0 where a: "AbsTraversalForExpr (Expr attr) = (t0, d0)"
    by (cases "AbsTraversalForExpr (Expr attr)")
  obtain s dv where b: "DecodeExpression (Expr attr) = (s, dv)"
    by (cases "DecodeExpression (Expr attr)")
  obtain t1 d1 where c: "ParseTraversalAbs E s = (t1, d1)"
    by (cases "ParseTraversalAbs E s")
  from assms a b c
  have "(\<not> HasErrors d0 \<and> t0 = TraverseRoot n # rest) \<or>
        (HasErrors d0 \<and> \<not> HasErrors dv \<and> \<not> HasErrors d1 \<and> t1 = TraverseRoot n # rest)"
    by simp
  then show ?thesis
  proof
    assume "\<not> HasErrors d0 \<and> t0 = TraverseRoot n # rest"
    then show ?thesis
      by (cases rest)
         (simp_all add: decodeProviderAttribute_def a b c split: Traverser.splits)
  next
    assume "HasErrors d0 \<and> \<not> HasErrors dv \<and> \<not> HasErrors d1 \<and> t1 = TraverseRoot n # rest"
    then show ?thesis
      by (cases rest)
         (simp_all add: decodeProviderAttribute_def a b c split: Traverser.splits)
  qed
qed

text \<open>
  The attribute \<^verbatim>\<open>provider = aws.east\<close>, the attribute \<^verbatim>\<open>provider = "aws"\<close> with
  no second step, and a traversal whose second step is an index.
\<close>

theorem decodeProviderAttribute_resolved_witness:
  "decodeProviderAttribute sampleEnv bareAttr =
     Inr (\<lparr>LocalName = ''aws'', Alias = ''east''\<rparr>, [])
   \<and> decodeProviderAttribute sampleEnv
       \<lparr>Expr = \<lparr>AbsTraversalForExpr = ([], [sampleError ''Invalid expression'']),
                DecodeExpression = (''aws'', []), ExprRange = sampleRange\<rparr>\<rparr> =
     Inr (\<lparr>LocalName = ''aws'', Alias = ''''\<rparr>, [])
   \<and> decodeProviderAttribute sampleEnv
       \<lparr>Expr = \<lparr>AbsTraversalForExpr = ([TraverseRoot ''aws'', TraverseIndex ''0''], []),
                DecodeExpression = ('''', [sampleError ''Variables not allowed'']),
                ExprRange = sampleRange\<rparr>\<rparr> =
     Inr (\<lparr>LocalName = ''aws'', Alias = ''''\<rparr>, [])"
  using decodeProviderAttribute_resolved
      [of bareAttr "''aws''" "[TraverseAttr ''east'']" sampleEnv]
    decodeProviderAttribute_resolved
      [of "\<lparr>Expr = \<lparr>AbsTraversalForExpr = ([], [sampleError ''Invalid expression'']),
                DecodeExpression = (''aws'', []), ExprRange = sampleRange\<rparr>\<rparr>"
          "''aws''" "[]" sampleEnv]
    decodeProviderAttribute_resolved
      [of "\<lparr>Expr = \<lparr>AbsTraversalForExpr = ([TraverseRoot ''aws'', TraverseIndex ''0''], []),
                DecodeExpression = ('''', [sampleError ''Variables not allowed'']),
                ExprRange = sampleRange\<rparr>\<rparr>"
          "''aws''" "[TraverseIndex ''0'']" sampleEnv]
  by (simp add: sample_attr_defs)



section \<open>Merging the requirements of a provider\<close>

lemma providerRequirement_update:
  "r\<lparr>VersionConstraints := v\<rparr> =
     \<lparr>providerRequirement.Source = providerRequirement.Source r, VersionConstraints = v\<rparr>"
  "r\<lparr>providerRequirement.Source := s, VersionConstraints := v\<rparr> =
     \<lparr>providerRequirement.Source = s, VersionConstraints = v\<rparr>"
  by (cases r; simp)+

lemmas sample_module_defs = requiredProviders_def terraformBlock_def hashicorpAws_def
  exampleAws_def awsModule_def newDecodedModule_def sampleEnv_def sampleRange_def

text \<open>
  C1. When the accumulator holds for the name \<open>n\<close> a requirement with a non-empty
  source, and the fragment for \<open>n\<close> has another non-empty source, the merge appends
  exactly one diagnostic, of severity error, with summary "Multiple provider source
  attributes" and a detail that names the provider and both sources; the stored source
  stays, and the constraints of the fragment are appended to the stored ones.
\<close>

theorem mergeRequirement_conflict:
  assumes "ProviderRequirements md n = Some r"
    and "providerRequirement.Source r \<noteq> ''''"
    and "providerRequirement.Source req \<noteq> ''''"
    and "providerRequirement.Source req \<noteq> providerRequirement.Source r"
  shows "mergeRequirement E rng (md, diags) (n, req) =
     (md\<lparr>ProviderRequirements := (ProviderRequirements md)
          (n \<mapsto> \<lparr>providerRequirement.Source = providerRequirement.Source r,
                 VersionConstraints = VersionConstraints r @ VersionConstraints req\<rparr>)\<rparr>,
      diags @
        [\<lparr>Severity = DiagError,
          Summary = ''Multiple provider source attributes'',
          Detail = ''Found multiple source attributes for provider '' @ n @ '': ''
            @ Quote E (providerRequirement.Source r) @ '', ''
            @ Quote E (providerRequirement.Source req),
          Subject = Some rng\<rparr>])"
  using assms
  by (simp add: mergeRequirement_def multipleProviderSources_def providerRequirement_update)

text \<open>
  The sources "hashicorp/aws" and then "example/aws" for the provider \<^verbatim>\<open>aws\<close>: on
  the merge step, and through \<^verbatim>\<open>loadModuleFromFile\<close> on a file with two
  \<^verbatim>\<open>required_providers\<close> blocks.
\<close>

theorem mergeRequirement_conflict_witness:
  "mergeRequirement sampleEnv sampleRange (awsModule, []) (''aws'', exampleAws) =
     (awsModule\<lparr>ProviderRequirements := [''aws'' \<mapsto>
         \<lparr>providerRequirement.Source = ''hashicorp/aws'',
          VersionConstraints = [''>= 2.0'', ''~> 3.0'']\<rparr>]\<rparr>,
      [\<lparr>Severity = DiagError,
        Summary = ''Multiple provider source attributes'',
        Detail = ''Found multiple source attributes for provider aws: ''
          @ [CHR 0x22] @ ''hashicorp/aws'' @ [CHR 0x22] @ '', ''
          @ [CHR 0x22] @ ''example/aws'' @ [CHR 0x22],
        Subject = Some sampleRange\<rparr>])
   \<and> (case loadModuleFromFile sampleEnv
          \<lparr>File.Blocks = [terraformBlock None [requiredProviders [(''aws'', hashicorpAws)]],
                          terraformBlock None [requiredProviders [(''aws'', exampleAws)]]],
           File.contentDiags = []\<rparr> newDecodedModule of
         Inr (md, diags) \<Rightarrow>
           ProviderRequirements md ''aws'' =
             Some \<lparr>providerRequirement.Source = ''hashicorp/aws'',
                   VersionConstraints = [''>= 2.0'', ''~> 3.0'']\<rparr>
           \<and> map Summary diags = [''Multiple provider source attributes'']
       | Inl p \<Rightarrow> False)"
  using mergeRequirement_conflict
      [of awsModule "''aws''" hashicorpAws exampleAws sampleEnv sampleRange "[]"]
  by (simp add: sample_module_defs loadModuleFromFile_def loadBlock_def
      loadTerraformBlock_def loadNestedBlock_def mergeRequirement_def
      multipleProviderSources_def)

text \<open>
  C2. A fragment for a name the accumulator does not hold is inserted as it is. When
  the accumulator holds the name and the fragment's source is empty, or equal to the
  stored source, or the stored source is empty, the merge appends no diagnostic, the
  stored source becomes the fragment's source when that is non-empty (and stays
  otherwise), and the constraints of the fragment are appended, in their order and
  without removing duplicates, to the stored ones.
\<close>

theorem mergeRequirement_compatible:
  "(ProviderRequirements md n = None \<longrightarrow>
      mergeRequirement E rng (md, diags) (n, req) =
        (md\<lparr>ProviderRequirements := (ProviderRequirements md)(n \<mapsto> req)\<rparr>, diags))
   \<and> (ProviderRequirements md n = Some r
        \<and> (providerRequirement.Source req = ''''
           \<or> providerRequirement.Source req = providerRequirement.Source r
           \<or> providerRequirement.Source r = '''') \<longrightarrow>
      mergeRequirement E rng (md, diags) (n, req) =
        (md\<lparr>ProviderRequirements := (ProviderRequirements md)
             (n \<mapsto> \<lparr>providerRequirement.Source =
                      (if providerRequirement.Source req \<noteq> ''''
                       then providerRequirement.Source req
                       else providerRequirement.Source r),
                    VersionConstraints = VersionConstraints r @ VersionConstraints req\<rparr>)\<rparr>,
         diags))"
  by (auto simp: mergeRequirement_def providerRequirement_update)

text \<open>
  An insertion into the empty accumulator; the same source twice, with a repeated
  constraint; a fragment without source; and the two equal sources through
  \<^verbatim>\<open>loadModuleFromFile\<close>.
\<close>

theorem mergeRequirement_compatible_witness:
  "mergeRequirement sampleEnv sampleRange (newDecodedModule, []) (''aws'', hashicorpAws) =
     (newDecodedModule\<lparr>ProviderRequirements := [''aws'' \<mapsto> hashicorpAws]\<rparr>, [])
   \<and> mergeRequirement sampleEnv sampleRange (awsModule, []) (''aws'', hashicorpAws) =
     (awsModule\<lparr>ProviderRequirements := [''aws'' \<mapsto>
         \<lparr>providerRequirement.Source = ''hashicorp/aws'',
          VersionConstraints = [''>= 2.0'', ''>= 2.0'']\<rparr>]\<rparr>, [])
   \<and> mergeRequirement sampleEnv sampleRange (awsModule, [])
       (''aws'', \<lparr>providerRequirement.Source = '''', VersionConstraints = [''< 4.0'']\<rparr>) =
     (awsModule\<lparr>ProviderRequirements := [''aws'' \<mapsto>
         \<lparr>providerRequirement.Source = ''hashicorp/aws'',
          VersionConstraints = [''>= 2.0'', ''< 4.0'']\<rparr>]\<rparr>, [])
   \<and> (case loadModuleFromFile sampleEnv
          \<lparr>File.Blocks = [terraformBlock None [requiredProviders [(''aws'', hashicorpAws)]],
                          terraformBlock None [requiredProviders [(''aws'', hashicorpAws)]]],
           File.contentDiags = []\<rparr> newDecodedModule of
         Inr (md, diags) \<Rightarrow>
           ProviderRequirements md ''aws'' =
             Some \<lparr>providerRequirement.Source = ''hashicorp/aws'',
                   VersionConstraints = [''>= 2.0'', ''>= 2.0'']\<rparr>
           \<and> diags = []
       | Inl p \<Rightarrow> False)"
  using mergeRequirement_compatible
      [of newDecodedModule "''aws''" sampleEnv sampleRange "[]" hashicorpAws hashicorpAws]
    mergeRequirement_compatible
      [of awsModule "''aws''" sampleEnv sampleRange "[]" hashicorpAws hashicorpAws]
    mergeRequirement_compatible
      [of awsModule "''aws''" sampleEnv sampleRange "[]"
          "\<lparr>providerRequirement.Source = '''', VersionConstraints = [''< 4.0'']\<rparr>"
          hashicorpAws]
  by (simp add: sample_module_defs loadModuleFromFile_def loadBlock_def
      loadTerraformBlock_def loadNestedBlock_def mergeRequirement_def)

section \<open>What one block does\<close>

lemma index_Cons2: "index (t # n # ls) 0 = Inr t" "index (t # n # ls) (Suc 0) = Inr n"
  by (simp_all add: index_def)

lemma index_Cons1: "index (n # ls) 0 = Inr n"
  by (simp add: index_def)

lemma loadResourceBlock_labels:
  assumes "loadResourceBlock E b st = Inr st'"
  shows "\<exists>t n ls. Labels b = t # n # ls"
proof -
  have "0 < length (Labels b) \<and> 1 < length (Labels b)"
    using assms
    by (cases st) (auto simp: loadResourceBlock_def index_def split: if_splits)
  then show ?thesis
    by (cases "Labels b"; cases "tl (Labels b)") auto
qed

lemma loadResourceBlock_eq:
  assumes "Labels b = t # n # ls"
  shows "loadResourceBlock E b (md, ds) =
     (case Attributes b ''provider'' of
        None \<Rightarrow>
          Inr (md\<lparr>Resources := (Resources md)
                 (resourceMapKey E \<lparr>resource.Type = t, resource.Name = n,
                    resource.Provider = \<lparr>LocalName = '''', ProviderRef.Alias = ''''\<rparr>\<rparr> \<mapsto>
                  \<lparr>resource.Type = t, resource.Name = n,
                   resource.Provider = \<lparr>LocalName = inferProviderNameFromType t,
                     ProviderRef.Alias = ''''\<rparr>\<rparr>)\<rparr>,
               ds @ Block.contentDiags b)
      | Some a \<Rightarrow>
          (case decodeProviderAttribute E a of
             Inl p \<Rightarrow> Inl p
           | Inr (ref, ad) \<Rightarrow>
               Inr (md\<lparr>Resources := (Resources md)
                      (resourceMapKey E \<lparr>resource.Type = t, resource.Name = n,
                         resource.Provider = \<lparr>LocalName = '''', ProviderRef.Alias = ''''\<rparr>\<rparr> \<mapsto>
                       \<lparr>resource.Type = t, resource.Name = n, resource.Provider = ref\<rparr>)\<rparr>,
                    ds @ Block.contentDiags b @ ad)))"
  by (simp add: loadResourceBlock_def assms index_Cons2 Let_def
      split: option.splits sum.splits prod.splits)

lemma loadDataBlock_labels:
  assumes "loadDataBlock E b st = Inr st'"
  shows "\<exists>t n ls. Labels b = t # n # ls"
proof -
  have "0 < length (Labels b) \<and> 1 < length (Labels b)"
    using assms
    by (cases st) (auto simp: loadDataBlock_def index_def split: if_splits)
  then show ?thesis
    by (cases "Labels b"; cases "tl (Labels b)") auto
qed

lemma loadDataBlock_eq:
  assumes "Labels b = t # n # ls"
  shows "loadDataBlock E b (md, ds) =
     (case Attributes b ''provider'' of
        None \<Rightarrow>
          Inr (md\<lparr>DataSources := (DataSources md)
                 (dataSourceMapKey E \<lparr>dataSource.Type = t, dataSource.Name = n,
                    dataSource.Provider = \<lparr>LocalName = '''', ProviderRef.Alias = ''''\<rparr>\<rparr> \<mapsto>
                  \<lparr>dataSource.Type = t, dataSource.Name = n,
                   dataSource.Provider = \<lparr>LocalName = inferProviderNameFromType t,
                     ProviderRef.Alias = ''''\<rparr>\<rparr>)\<rparr>,
               ds @ Block.contentDiags b)
      | Some a \<Rightarrow>
          (case decodeProviderAttribute E a of
             Inl p \<Rightarrow> Inl p
           | Inr (ref, ad) \<Rightarrow>
               Inr (md\<lparr>DataSources := (DataSources md)
                      (dataSourceMapKey E \<lparr>dataSource.Type = t, dataSource.Name = n,
                         dataSource.Provider = \<lparr>LocalName = '''', ProviderRef.Alias = ''''\<rparr>\<rparr> \<mapsto>
                       \<lparr>dataSource.Type = t, dataSource.Name = n, dataSource.Provider = ref\<rparr>)\<rparr>,
                    ds @ Block.contentDiags b @ ad)))"
  by (simp add: loadDataBlock_def assms index_Cons2 Let_def
      split: option.splits sum.splits prod.splits)

lemma loadModuleBlock_labels:
  assumes "loadModuleBlock E b st = Inr st'"
  shows "\<exists>n ls. Labels b = n # ls"
proof -
  have "0 < length (Labels b)"
    using assms
    by (cases st) (auto simp: loadModuleBlock_def index_def split: if_splits)
  then show ?thesis
    by (cases "Labels b") auto
qed

lemma loadModuleBlock_eq:
  assumes "Labels b = n # ls"
  shows "loadModuleBlock E b (md, ds) =
     Inr (md\<lparr>ModuleSources := (ModuleSources md)
            (''module.'' @ n \<mapsto>
             \<lparr>ModuleSource.Source =
                (case Attributes b ''source'' of
                   None \<Rightarrow> '''' | Some a \<Rightarrow> fst (DecodeExpression (Expr a))),
              ModuleSource.Name = n\<rparr>)\<rparr>,
          ds @ Block.contentDiags b @
            (case Attributes b ''source'' of
               None \<Rightarrow> [] | Some a \<Rightarrow> snd (DecodeExpression (Expr a))))"
  by (simp add: loadModuleBlock_def assms index_Cons1 Let_def MapKey_def
      split: option.splits prod.splits)

section \<open>Inference of the provider and module calls\<close>

lemma indexByte_absent: "c \<notin> set s \<Longrightarrow> indexByte s c = None"
  by (induction s) auto

lemma indexByte_first: "c \<notin> set p \<Longrightarrow> indexByte (p @ c # rest) c = Some (length p)"
  by (induction p) auto

lemmas sample_block_defs = resourceBlock_def dataBlock_def moduleBlock_def literalAttr_def
  nullPartAttr_def variableAttr_def sampleError_def

text \<open>
  C6. \<^verbatim>\<open>inferProviderNameFromType\<close> returns the part of the type before its first
  underscore, and the whole type when it has no underscore; it is a total function and
  returns no diagnostic. A \<^verbatim>\<open>resource\<close> or \<^verbatim>\<open>data\<close> block without \<^verbatim>\<open>provider\<close>
  attribute is stored with the inferred name and the empty alias, and adds only the
  diagnostics of its content; the type \<^verbatim>\<open>aws_instance\<close> gives \<^verbatim>\<open>aws\<close>.
\<close>

theorem inferProviderNameFromType_prefix:
  "(CHR ''_'' \<notin> set p \<longrightarrow> inferProviderNameFromType (p @ CHR ''_'' # rest) = p)
   \<and> (CHR ''_'' \<notin> set t \<longrightarrow> inferProviderNameFromType t = t)
   \<and> inferProviderNameFromType ''aws_instance'' = ''aws''
   \<and> (Block.Type b = ''resource'' \<and> Labels b = ty # nm # ls
        \<and> Attributes b ''provider'' = None \<longrightarrow>
      loadBlock E b (md, diags) =
        Inr (md\<lparr>Resources := (Resources md)
               (resourceMapKey E \<lparr>resource.Type = ty, resource.Name = nm,
                  resource.Provider = \<lparr>LocalName = '''', ProviderRef.Alias = ''''\<rparr>\<rparr> \<mapsto>
                \<lparr>resource.Type = ty, resource.Name = nm,
                 resource.Provider = \<lparr>LocalName = inferProviderNameFromType ty,
                   ProviderRef.Alias = ''''\<rparr>\<rparr>)\<rparr>,
             diags @ Block.contentDiags b))
   \<and> (Block.Type b = ''data'' \<and> Labels b = ty # nm # ls
        \<and> Attributes b ''provider'' = None \<longrightarrow>
      loadBlock E b (md, diags) =
        Inr (md\<lparr>DataSources := (DataSources md)
               (dataSourceMapKey E \<lparr>dataSource.Type = ty, dataSource.Name = nm,
                  dataSource.Provider = \<lparr>LocalName = '''', ProviderRef.Alias = ''''\<rparr>\<rparr> \<mapsto>
                \<lparr>dataSource.Type = ty, dataSource.Name = nm,
                 dataSource.Provider = \<lparr>LocalName = inferProviderNameFromType ty,
                   ProviderRef.Alias = ''''\<rparr>\<rparr>)\<rparr>,
             diags @ Block.contentDiags b))"
proof -
  have 1: "CHR ''_'' \<notin> set p \<longrightarrow> inferProviderNameFromType (p @ CHR ''_'' # rest) = p"
    by (simp add: inferProviderNameFromType_def indexByte_first)
  have 2: "CHR ''_'' \<notin> set t \<longrightarrow> inferProviderNameFromType t = t"
    by (simp add: inferProviderNameFromType_def indexByte_absent)
  have 3: "inferProviderNameFromType ''aws_instance'' = ''aws''"
    by (simp add: inferProviderNameFromType_def)
  have 4: "Block.Type b = ''resource'' \<and> Labels b = ty # nm # ls
        \<and> Attributes b ''provider'' = None \<longrightarrow>
      loadBlock E b (md, diags) =
        Inr (md\<lparr>Resources := (Resources md)
               (resourceMapKey E \<lparr>resource.Type = ty, resource.Name = nm,
                  resource.Provider = \<lparr>LocalName = '''', ProviderRef.Alias = ''''\<rparr>\<rparr> \<mapsto>
                \<lparr>resource.Type = ty, resource.Name = nm,
                 resource.Provider = \<lparr>LocalName = inferProviderNameFromType ty,
                   ProviderRef.Alias = ''''\<rparr>\<rparr>)\<rparr>,
             diags @ Block.contentDiags b)"
    by (simp add: loadBlock_def loadResourceBlock_eq)
  have 5: "Block.Type b = ''data'' \<and> Labels b = ty # nm # ls
        \<and> Attributes b ''provider'' = None \<longrightarrow>
      loadBlock E b (md, diags) =
        Inr (md\<lparr>DataSources := (DataSources md)
               (dataSourceMapKey E \<lparr>dataSource.Type = ty, dataSource.Name = nm,
                  dataSource.Provider = \<lparr>LocalName = '''', ProviderRef.Alias = ''''\<rparr>\<rparr> \<mapsto>
                \<lparr>dataSource.Type = ty, dataSource.Name = nm,
                 dataSource.Provider = \<lparr>LocalName = inferProviderNameFromType ty,
                   ProviderRef.Alias = ''''\<rparr>\<rparr>)\<rparr>,
             diags @ Block.contentDiags b)"
    by (simp add: loadBlock_def loadDataBlock_eq)
  show ?thesis using 1 2 3 4 5 by (intro conjI)
qed

text \<open>
  The types \<^verbatim>\<open>aws_instance\<close>, \<^verbatim>\<open>instance\<close> and \<^verbatim>\<open>_x\<close>, and the resource
  \<^verbatim>\<open>aws_instance.web\<close> without \<^verbatim>\<open>provider\<close> attribute, decoded into the empty
  accumulator.
\<close>

theorem inferProviderNameFromType_prefix_witness:
  "inferProviderNameFromType (''aws'' @ CHR ''_'' # ''instance'') = ''aws''
   \<and> inferProviderNameFromType ''instance'' = ''instance''
   \<and> inferProviderNameFromType ''_x'' = ''''
   \<and> loadBlock sampleEnv (resourceBlock ''aws_instance'' ''web'' None) (newDecodedModule, []) =
       Inr (newDecodedModule\<lparr>Resources := [''aws_instance.web'' \<mapsto>
              \<lparr>resource.Type = ''aws_instance'', resource.Name = ''web'',
               resource.Provider = \<lparr>LocalName = ''aws'', ProviderRef.Alias = ''''\<rparr>\<rparr>]\<rparr>, [])"
proof -
  note inst = inferProviderNameFromType_prefix
      [of "''aws''" "''instance''" "''instance''"
          "resourceBlock ''aws_instance'' ''web'' None" "''aws_instance''" "''web''" "[]"
          sampleEnv newDecodedModule "[]"]
  have a: "CHR ''_'' \<notin> set ''aws''" and b: "CHR ''_'' \<notin> set ''instance''"
    by simp_all
  have c: "Block.Type (resourceBlock ''aws_instance'' ''web'' None) = ''resource''
     \<and> Labels (resourceBlock ''aws_instance'' ''web'' None) = [''aws_instance'', ''web'']
     \<and> Attributes (resourceBlock ''aws_instance'' ''web'' None) ''provider'' = None"
    by (simp add: resourceBlock_def)
  have 1: "inferProviderNameFromType (''aws'' @ CHR ''_'' # ''instance'') = ''aws''"
    using inst a by blast
  have 2: "inferProviderNameFromType ''instance'' = ''instance''"
    using inst b by blast
  have 3: "inferProviderNameFromType ''_x'' = ''''"
    using inferProviderNameFromType_prefix [of "''''" "''x''"] by simp
  have "loadBlock sampleEnv (resourceBlock ''aws_instance'' ''web'' None) (newDecodedModule, []) =
        Inr (newDecodedModule\<lparr>Resources := (Resources newDecodedModule)
               (resourceMapKey sampleEnv \<lparr>resource.Type = ''aws_instance'', resource.Name = ''web'',
                  resource.Provider = \<lparr>LocalName = '''', ProviderRef.Alias = ''''\<rparr>\<rparr> \<mapsto>
                \<lparr>resource.Type = ''aws_instance'', resource.Name = ''web'',
                 resource.Provider = \<lparr>LocalName = inferProviderNameFromType ''aws_instance'',
                   ProviderRef.Alias = ''''\<rparr>\<rparr>)\<rparr>,
             [] @ Block.contentDiags (resourceBlock ''aws_instance'' ''web'' None))"
    using inst c by blast
  also have "\<dots> = Inr (newDecodedModule\<lparr>Resources := [''aws_instance.web'' \<mapsto>
              \<lparr>resource.Type = ''aws_instance'', resource.Name = ''web'',
               resource.Provider = \<lparr>LocalName = ''aws'', ProviderRef.Alias = ''''\<rparr>\<rparr>]\<rparr>, [])"
    by (simp add: resourceBlock_def sampleEnv_def newDecodedModule_def
        inferProviderNameFromType_def)
  finally show ?thesis using 1 2 3 by simp
qed

text \<open>
  C9, as the decoder has it. A \<^verbatim>\<open>module\<close> block with a first label \<open>n\<close> stores a
  record named \<open>n\<close> under the key \<^verbatim>\<open>module.\<close>\<open>n\<close>. Without \<^verbatim>\<open>source\<close> attribute the
  source of the record is empty. With one, the source is the string that the decoding
  leaves in the field, which was empty before, and the diagnostics of the decoding are
  appended: so the source is empty after a decoding that writes nothing, and it is the
  decoded string otherwise, also when the decoding reports an error.
\<close>

theorem loadModuleBlock_stores:
  assumes "Block.Type b = ''module''" and "Labels b = n # ls"
  shows "loadBlock E b (md, diags) =
     Inr (md\<lparr>ModuleSources := (ModuleSources md)
            (''module.'' @ n \<mapsto>
             \<lparr>ModuleSource.Source =
                (case Attributes b ''source'' of
                   None \<Rightarrow> '''' | Some a \<Rightarrow> fst (DecodeExpression (Expr a))),
              ModuleSource.Name = n\<rparr>)\<rparr>,
          diags @ Block.contentDiags b @
            (case Attributes b ''source'' of
               None \<Rightarrow> [] | Some a \<Rightarrow> snd (DecodeExpression (Expr a))))"
  using assms by (simp add: loadBlock_def loadModuleBlock_eq)

text \<open>
  A module call with a literal source, and one whose source refers to a variable: the
  decoding writes nothing and the source stays empty.
\<close>

theorem loadModuleBlock_stores_witness:
  "loadBlock sampleEnv (moduleBlock ''m'' (Some (literalAttr ''./child''))) (newDecodedModule, []) =
     Inr (newDecodedModule\<lparr>ModuleSources := [''module.m'' \<mapsto>
            \<lparr>ModuleSource.Source = ''./child'', ModuleSource.Name = ''m''\<rparr>]\<rparr>, [])
   \<and> loadBlock sampleEnv (moduleBlock ''m'' (Some variableAttr)) (newDecodedModule, []) =
     Inr (newDecodedModule\<lparr>ModuleSources := [''module.m'' \<mapsto>
            \<lparr>ModuleSource.Source = '''', ModuleSource.Name = ''m''\<rparr>]\<rparr>,
          [sampleError ''Variables not allowed''])"
  using loadModuleBlock_stores
      [of "moduleBlock ''m'' (Some (literalAttr ''./child''))" "''m''" "[]"
          sampleEnv newDecodedModule "[]"]
    loadModuleBlock_stores
      [of "moduleBlock ''m'' (Some variableAttr)" "''m''" "[]" sampleEnv newDecodedModule "[]"]
  by (simp add: sample_block_defs newDecodedModule_def)

text \<open>
  The claim that a failed decoding leaves the source empty does not hold: for the
  template \<^verbatim>\<open>"a${null}"\<close> the decoding reports an error and the stored source is "a".
\<close>

theorem loadModuleBlock_failed_source_counterexample:
  "HasErrors (snd (DecodeExpression (Expr nullPartAttr)))
   \<and> (case loadModuleFromFile sampleEnv
          \<lparr>File.Blocks = [moduleBlock ''m'' (Some nullPartAttr)], File.contentDiags = []\<rparr>
          newDecodedModule of
         Inr (md, diags) \<Rightarrow>
           map_option ModuleSource.Source (ModuleSources md ''module.m'') = Some ''a''
           \<and> map Summary diags = [''Invalid template interpolation value'']
       | Inl p \<Rightarrow> False)"
  by (simp add: sample_block_defs newDecodedModule_def loadModuleFromFile_def loadBlock_def
      loadModuleBlock_def index_def MapKey_def)

section \<open>What the blocks leave alone\<close>

lemma mergeRequirement_untouched:
  "untouched (fst (mergeRequirement E rng st e)) = untouched (fst st)"
  by (cases st; cases e)
     (simp add: mergeRequirement_def untouched_def Let_def split: option.splits)

lemma mergeRequirement_diags:
  "prefix (snd st) (snd (mergeRequirement E rng st e))"
  by (cases st; cases e)
     (simp add: mergeRequirement_def Let_def split: option.splits)

lemma foldl_mergeRequirement_untouched:
  "untouched (fst (foldl (mergeRequirement E rng) st reqs)) = untouched (fst st)"
  by (induction reqs arbitrary: st) (simp_all add: mergeRequirement_untouched)

lemma foldl_mergeRequirement_diags:
  "prefix (snd st) (snd (foldl (mergeRequirement E rng) st reqs))"
proof (induction reqs arbitrary: st)
  case Nil
  show ?case by simp
next
  case (Cons e reqs)
  have "prefix (snd st) (snd (mergeRequirement E rng st e))"
    by (rule mergeRequirement_diags)
  also have "prefix \<dots> (snd (foldl (mergeRequirement E rng) (mergeRequirement E rng st e) reqs))"
    by (rule Cons.IH)
  finally show ?case by simp
qed

lemma loadNestedBlock_untouched:
  "untouched (fst (loadNestedBlock E st b)) = untouched (fst st)"
  by (cases st)
     (simp add: loadNestedBlock_def foldl_mergeRequirement_untouched split: prod.splits)

lemma loadNestedBlock_diags:
  "prefix (snd st) (snd (loadNestedBlock E st b))"
proof (cases st)
  case (Pair md ds)
  obtain reqs rd where r: "decodeRequiredProvidersBlock b = (reqs, rd)"
    by (cases "decodeRequiredProvidersBlock b")
  have "prefix ds (ds @ rd)" by simp
  also have "prefix \<dots> (snd (foldl (mergeRequirement E (DefRange b)) (md, ds @ rd) reqs))"
    using foldl_mergeRequirement_diags [of "(md, ds @ rd)"] by simp
  finally show ?thesis
    by (simp add: loadNestedBlock_def Pair r)
qed

lemma foldl_loadNestedBlock_untouched:
  "untouched (fst (foldl (loadNestedBlock E) st bs)) = untouched (fst st)"
  by (induction bs arbitrary: st) (simp_all add: loadNestedBlock_untouched)

lemma foldl_loadNestedBlock_diags:
  "prefix (snd st) (snd (foldl (loadNestedBlock E) st bs))"
proof (induction bs arbitrary: st)
  case Nil
  show ?case by simp
next
  case (Cons b bs)
  have "prefix (snd st) (snd (loadNestedBlock E st b))"
    by (rule loadNestedBlock_diags)
  also have "prefix \<dots> (snd (foldl (loadNestedBlock E) (loadNestedBlock E st b) bs))"
    by (rule Cons.IH)
  finally show ?case by simp
qed


lemma reqsGrow_refl: "reqsGrow R R"
  by (simp add: reqsGrow_def)

lemma reqsGrow_trans: "reqsGrow R R' \<Longrightarrow> reqsGrow R' R'' \<Longrightarrow> reqsGrow R R''"
  unfolding reqsGrow_def by (meson prefix_order.trans)

lemma reqsGrow_dom: "reqsGrow R R' \<Longrightarrow> dom R \<subseteq> dom R'"
  unfolding reqsGrow_def by auto

lemma reqsGrow_insert: "R n = None \<Longrightarrow> reqsGrow R (R(n \<mapsto> r))"
  unfolding reqsGrow_def by auto

lemma reqsGrow_extend:
  "R n = Some r \<Longrightarrow> prefix (VersionConstraints r) (VersionConstraints r') \<Longrightarrow>
   reqsGrow R (R(n \<mapsto> r'))"
  unfolding reqsGrow_def by auto

lemma mergeRequirement_reqsGrow:
  "reqsGrow (ProviderRequirements (fst st)) (ProviderRequirements (fst (mergeRequirement E rng st e)))"
proof (cases st; cases e)
  fix md ds n req
  assume st: "st = (md, ds)" and e: "e = (n, req)"
  show ?thesis
  proof (cases "ProviderRequirements md n")
    case None
    then show ?thesis
      by (simp add: st e mergeRequirement_def reqsGrow_insert)
  next
    case (Some r)
    then show ?thesis
      by (auto simp: st e mergeRequirement_def Let_def intro!: reqsGrow_extend)
  qed
qed

lemma foldl_mergeRequirement_reqsGrow:
  "reqsGrow (ProviderRequirements (fst st))
     (ProviderRequirements (fst (foldl (mergeRequirement E rng) st reqs)))"
proof (induction reqs arbitrary: st)
  case Nil
  show ?case by (simp add: reqsGrow_refl)
next
  case (Cons e reqs)
  show ?case
    using reqsGrow_trans [OF mergeRequirement_reqsGrow Cons.IH] by simp
qed

lemma loadNestedBlock_reqsGrow:
  "reqsGrow (ProviderRequirements (fst st)) (ProviderRequirements (fst (loadNestedBlock E st b)))"
proof (cases st)
  case (Pair md ds)
  obtain reqs rd where r: "decodeRequiredProvidersBlock b = (reqs, rd)"
    by (cases "decodeRequiredProvidersBlock b")
  show ?thesis
    using foldl_mergeRequirement_reqsGrow [of "(md, ds @ rd)" E "DefRange b" reqs]
    by (simp add: loadNestedBlock_def Pair r reqsGrow_refl)
qed

lemma foldl_loadNestedBlock_reqsGrow:
  "reqsGrow (ProviderRequirements (fst st))
     (ProviderRequirements (fst (foldl (loadNestedBlock E) st bs)))"
proof (induction bs arbitrary: st)
  case Nil
  show ?case by (simp add: reqsGrow_refl)
next
  case (Cons b bs)
  show ?case
    using reqsGrow_trans [OF loadNestedBlock_reqsGrow Cons.IH] by simp
qed


lemma loadTerraformBlock_Inr:
  "\<exists>md' ds'. loadTerraformBlock E b st = Inr (md', ds')"
  by (cases st) (simp add: loadTerraformBlock_def Let_def split: prod.splits option.splits)

lemma loadTerraformBlock_effect:
  assumes "loadTerraformBlock E b (md, ds) = Inr (md', ds')"
  shows "RequiredCore md' = RequiredCore md @ requiredVersionOf b"
    and "ProviderConfigs md' = ProviderConfigs md"
    and "Resources md' = Resources md"
    and "DataSources md' = DataSources md"
    and "ModuleSources md' = ModuleSources md"
    and "reqsGrow (ProviderRequirements md) (ProviderRequirements md')"
    and "prefix ds ds'"
    and "\<And>a. Attributes b ''required_version'' = Some a \<Longrightarrow>
           set (snd (DecodeExpression (Expr a))) \<subseteq> set ds'"
proof -
  define st1 where "st1 =
            (case Attributes b ''required_version'' of
               Some attr \<Rightarrow>
                 (let (version, valDiags) = DecodeExpression (Expr attr) in
                  if \<not> HasErrors valDiags then
                    (md\<lparr>RequiredCore := RequiredCore md @ [version]\<rparr>, (ds @ Block.contentDiags b) @ valDiags)
                  else (md, (ds @ Block.contentDiags b) @ valDiags))
             | None \<Rightarrow> (md, ds @ Block.contentDiags b))"
  have res: "(md', ds') = foldl (loadNestedBlock E) st1 (Block.Blocks b)"
    using assms by (simp add: loadTerraformBlock_def st1_def Let_def)
  have u1: "untouched (fst st1) = (RequiredCore md @ requiredVersionOf b, ProviderConfigs md,
      Resources md, DataSources md, ModuleSources md)"
    by (simp add: st1_def untouched_def requiredVersionOf_def Let_def split: option.splits prod.splits)
  have "untouched md' = untouched (fst st1)"
    using foldl_loadNestedBlock_untouched [of E st1 "Block.Blocks b"] res [symmetric] by simp
  with u1 show "RequiredCore md' = RequiredCore md @ requiredVersionOf b"
    and "ProviderConfigs md' = ProviderConfigs md"
    and "Resources md' = Resources md"
    and "DataSources md' = DataSources md"
    and "ModuleSources md' = ModuleSources md"
    by (simp_all add: untouched_def)
  have "ProviderRequirements (fst st1) = ProviderRequirements md"
    by (simp add: st1_def Let_def split: option.splits prod.splits)
  then show "reqsGrow (ProviderRequirements md) (ProviderRequirements md')"
    using foldl_loadNestedBlock_reqsGrow [of st1 E "Block.Blocks b"] res [symmetric] by simp
  have p1: "prefix ds (snd st1)"
    by (simp add: st1_def Let_def split: option.splits prod.splits)
  have p2: "prefix (snd st1) ds'"
    using foldl_loadNestedBlock_diags [of st1 E "Block.Blocks b"] res [symmetric] by simp
  from p1 p2 show "prefix ds ds'" by (rule prefix_order.trans)
  fix a
  assume a: "Attributes b ''required_version'' = Some a"
  have "set (snd (DecodeExpression (Expr a))) \<subseteq> set (snd st1)"
    by (auto simp: st1_def a Let_def split: prod.splits)
  also have "\<dots> \<subseteq> set ds'"
    using p2 by (rule set_mono_prefix)
  finally show "set (snd (DecodeExpression (Expr a))) \<subseteq> set ds'" .
qed

lemma loadProviderBlock_other:
  assumes "loadProviderBlock E b (md, ds) = Inr (md', ds')"
  shows "RequiredCore md' = RequiredCore md"
    and "Resources md' = Resources md"
    and "DataSources md' = DataSources md"
    and "ModuleSources md' = ModuleSources md"
  using assms
  by (auto simp: loadProviderBlock_def Let_def split: sum.splits option.splits prod.splits if_splits)

lemma loadProviderBlock_configs:
  assumes "loadProviderBlock E b (md, ds) = Inr (md', ds')"
  shows "dom (ProviderConfigs md) \<subseteq> dom (ProviderConfigs md')"
  using assms
  by (auto simp: loadProviderBlock_def Let_def split: sum.splits option.splits prod.splits if_splits)

lemma loadProviderBlock_diags:
  assumes "loadProviderBlock E b (md, ds) = Inr (md', ds')"
  shows "prefix ds ds'"
  using assms
  by (auto simp: loadProviderBlock_def Let_def split: sum.splits option.splits prod.splits if_splits)

lemma loadProviderBlock_reqsGrow:
  assumes "loadProviderBlock E b (md, ds) = Inr (md', ds')"
  shows "reqsGrow (ProviderRequirements md) (ProviderRequirements md')"
  using assms
  by (auto simp: loadProviderBlock_def Let_def reqsGrow_def
      split: sum.splits option.splits prod.splits if_splits)

section \<open>The accumulator over the blocks of a file\<close>

text \<open>One block: what it appends to the required-core sequence, and what it keeps.\<close>

lemma loadBlock_effect:
  assumes "loadBlock E b (md, ds) = Inr (md', ds')"
  shows "RequiredCore md' =
           RequiredCore md @ (if Block.Type b = ''terraform'' then requiredVersionOf b else [])"
    and "reqsGrow (ProviderRequirements md) (ProviderRequirements md')"
    and "dom (ProviderConfigs md) \<subseteq> dom (ProviderConfigs md')"
    and "dom (Resources md) \<subseteq> dom (Resources md')"
    and "dom (DataSources md) \<subseteq> dom (DataSources md')"
    and "dom (ModuleSources md) \<subseteq> dom (ModuleSources md')"
    and "prefix ds ds'"
proof -
  let ?goal = "RequiredCore md' =
           RequiredCore md @ (if Block.Type b = ''terraform'' then requiredVersionOf b else [])
    \<and> reqsGrow (ProviderRequirements md) (ProviderRequirements md')
    \<and> dom (ProviderConfigs md) \<subseteq> dom (ProviderConfigs md')
    \<and> dom (Resources md) \<subseteq> dom (Resources md')
    \<and> dom (DataSources md) \<subseteq> dom (DataSources md')
    \<and> dom (ModuleSources md) \<subseteq> dom (ModuleSources md')
    \<and> prefix ds ds'"
  have ?goal
  proof (cases "Block.Type b = ''terraform''")
    case True
    then have r: "loadTerraformBlock E b (md, ds) = Inr (md', ds')"
      using assms by (simp add: loadBlock_def)
    show ?thesis
      using loadTerraformBlock_effect [OF r] True by simp
  next
    case nt: False
    show ?thesis
    proof (cases "Block.Type b = ''provider''")
      case True
      then have r: "loadProviderBlock E b (md, ds) = Inr (md', ds')"
        using assms by (simp add: loadBlock_def)
      show ?thesis
        using loadProviderBlock_other [OF r] loadProviderBlock_configs [OF r]
          loadProviderBlock_diags [OF r] loadProviderBlock_reqsGrow [OF r] nt
        by simp
    next
      case np: False
      show ?thesis
      proof (cases "Block.Type b = ''data''")
        case True
        then have r: "loadDataBlock E b (md, ds) = Inr (md', ds')"
          using assms by (simp add: loadBlock_def)
        obtain t n ls where l: "Labels b = t # n # ls"
          using loadDataBlock_labels [OF r] by blast
        show ?thesis
          using r nt
          by (auto simp: loadDataBlock_eq [OF l] reqsGrow_refl split: option.splits sum.splits)
      next
        case nd: False
        show ?thesis
        proof (cases "Block.Type b = ''resource''")
          case True
          then have r: "loadResourceBlock E b (md, ds) = Inr (md', ds')"
            using assms by (simp add: loadBlock_def)
          obtain t n ls where l: "Labels b = t # n # ls"
            using loadResourceBlock_labels [OF r] by blast
          show ?thesis
            using r nt
            by (auto simp: loadResourceBlock_eq [OF l] reqsGrow_refl
                split: option.splits sum.splits)
        next
          case nr: False
          show ?thesis
          proof (cases "Block.Type b = ''module''")
            case True
            then have r: "loadModuleBlock E b (md, ds) = Inr (md', ds')"
              using assms by (simp add: loadBlock_def)
            obtain n ls where l: "Labels b = n # ls"
              using loadModuleBlock_labels [OF r] by blast
            show ?thesis
              using r nt
              by (auto simp: loadModuleBlock_eq [OF l] reqsGrow_refl)
          next
            case False
            then have "md' = md" "ds' = ds"
              using assms nt np nd nr by (simp_all add: loadBlock_def)
            then show ?thesis
              using nt by (simp add: reqsGrow_refl)
          qed
        qed
      qed
    qed
  qed
  then show "RequiredCore md' =
           RequiredCore md @ (if Block.Type b = ''terraform'' then requiredVersionOf b else [])"
    and "reqsGrow (ProviderRequirements md) (ProviderRequirements md')"
    and "dom (ProviderConfigs md) \<subseteq> dom (ProviderConfigs md')"
    and "dom (Resources md) \<subseteq> dom (Resources md')"
    and "dom (DataSources md) \<subseteq> dom (DataSources md')"
    and "dom (ModuleSources md) \<subseteq> dom (ModuleSources md')"
    and "prefix ds ds'"
    by simp_all
qed

lemma requiredVersions_Cons:
  "requiredVersions (b # bs) =
     (if Block.Type b = ''terraform'' then requiredVersionOf b else []) @ requiredVersions bs"
  by (simp add: requiredVersions_def)

lemma loadBlocks_effect:
  assumes "loadBlocks E bs (md, ds) = Inr (md', ds')"
  shows "RequiredCore md' = RequiredCore md @ requiredVersions bs
    \<and> reqsGrow (ProviderRequirements md) (ProviderRequirements md')
    \<and> dom (ProviderConfigs md) \<subseteq> dom (ProviderConfigs md')
    \<and> dom (Resources md) \<subseteq> dom (Resources md')
    \<and> dom (DataSources md) \<subseteq> dom (DataSources md')
    \<and> dom (ModuleSources md) \<subseteq> dom (ModuleSources md')
    \<and> prefix ds ds'"
  using assms
proof (induction bs arbitrary: md ds)
  case Nil
  then show ?case by (simp add: requiredVersions_def reqsGrow_refl)
next
  case (Cons b bs)
  from Cons.prems obtain md1 ds1 where
    1: "loadBlock E b (md, ds) = Inr (md1, ds1)" and
    2: "loadBlocks E bs (md1, ds1) = Inr (md', ds')"
    by (auto split: sum.splits)
  note e1 = loadBlock_effect [OF 1]
  note e2 = Cons.IH [OF 2]
  have "reqsGrow (ProviderRequirements md) (ProviderRequirements md')"
    using e1(2) e2 reqsGrow_trans by blast
  moreover have "prefix ds ds'"
    using e1(7) e2 prefix_order.trans by blast
  moreover have "RequiredCore md' = RequiredCore md @ requiredVersions (b # bs)"
    using e1(1) e2 by (simp add: requiredVersions_Cons)
  moreover have "dom (ProviderConfigs md) \<subseteq> dom (ProviderConfigs md')"
    using e1(3) e2 by (meson subset_trans)
  moreover have "dom (Resources md) \<subseteq> dom (Resources md')"
    using e1(4) e2 by (meson subset_trans)
  moreover have "dom (DataSources md) \<subseteq> dom (DataSources md')"
    using e1(5) e2 by (meson subset_trans)
  moreover have "dom (ModuleSources md) \<subseteq> dom (ModuleSources md')"
    using e1(6) e2 by (meson subset_trans)
  ultimately show ?case by simp
qed

section \<open>Required versions and growth of the accumulator\<close>

lemma loadBlocks_append:
  "loadBlocks E (xs @ ys) st =
     (case loadBlocks E xs st of Inl p \<Rightarrow> Inl p | Inr st1 \<Rightarrow> loadBlocks E ys st1)"
  by (induction xs arbitrary: st) (simp_all split: sum.splits)

lemma loadBlocks_split:
  assumes "loadBlocks E (pre @ b # post) st = Inr st'"
  obtains st1 st2 where "loadBlocks E pre st = Inr st1"
    and "loadBlock E b st1 = Inr st2" and "loadBlocks E post st2 = Inr st'"
  using assms by (auto simp: loadBlocks_append split: sum.splits)

lemma loadBlocks_required_version_diags:
  assumes "loadBlocks E bs (md, ds) = Inr (md', ds')"
    and "b \<in> set bs" and "Block.Type b = ''terraform''"
    and "Attributes b ''required_version'' = Some a"
  shows "set (snd (DecodeExpression (Expr a))) \<subseteq> set ds'"
proof -
  from assms(2) obtain pre post where bs: "bs = pre @ b # post"
    by (meson split_list)
  from assms(1) obtain st1 md2 ds2 where
    1: "loadBlock E b st1 = Inr (md2, ds2)" and 2: "loadBlocks E post (md2, ds2) = Inr (md', ds')"
    unfolding bs by (elim loadBlocks_split) (cases rule: prod.exhaust, auto)
  obtain md1 ds1 where st1: "st1 = (md1, ds1)" by (cases st1)
  have "loadTerraformBlock E b (md1, ds1) = Inr (md2, ds2)"
    using 1 assms(3) by (simp add: loadBlock_def st1)
  then have "set (snd (DecodeExpression (Expr a))) \<subseteq> set ds2"
    using assms(4) by (rule loadTerraformBlock_effect(8))
  also have "\<dots> \<subseteq> set ds'"
    using loadBlocks_effect [OF 2] by (simp add: set_mono_prefix)
  finally show ?thesis .
qed

lemma loadModuleFromFiles_effect:
  assumes "loadModuleFromFiles E files md = Inr (md', diags)"
  shows "RequiredCore md' =
           RequiredCore md @ concat (map (\<lambda>f. requiredVersions (File.Blocks f)) files)"
    and "\<And>f b a. f \<in> set files \<Longrightarrow> b \<in> set (File.Blocks f) \<Longrightarrow>
           Block.Type b = ''terraform'' \<Longrightarrow> Attributes b ''required_version'' = Some a \<Longrightarrow>
           set (snd (DecodeExpression (Expr a))) \<subseteq> set diags"
  using assms
proof (induction files arbitrary: md md' diags)
  case Nil
  {
    case 1
    then show ?case by simp
  next
    case 2
    then show ?case by simp
  }
next
  case (Cons fl files)
  {
    case 1
    from 1 obtain md1 ds1 ds2 where
      a: "loadModuleFromFile E fl md = Inr (md1, ds1)" and
      b: "loadModuleFromFiles E files md1 = Inr (md', ds2)"
      by (auto split: sum.splits)
    have "RequiredCore md1 = RequiredCore md @ requiredVersions (File.Blocks fl)"
      using a loadBlocks_effect by (simp add: loadModuleFromFile_def)
    then show ?case
      using Cons.IH(1) [OF b] by simp
  next
    case (2 f b a)
    from 2(5) obtain md1 ds1 ds2 where
      a: "loadModuleFromFile E fl md = Inr (md1, ds1)" and
      b: "loadModuleFromFiles E files md1 = Inr (md', ds2)" and
      d: "diags = ds1 @ ds2"
      by (auto split: sum.splits)
    show ?case
    proof (cases "f = fl")
      case True
      have "set (snd (DecodeExpression (Expr a))) \<subseteq> set ds1"
        using a 2(2-4) True loadBlocks_required_version_diags
        by (simp add: loadModuleFromFile_def)
      then show ?thesis by (auto simp: d)
    next
      case False
      then have "f \<in> set files" using 2(1) by simp
      then have "set (snd (DecodeExpression (Expr a))) \<subseteq> set ds2"
        using Cons.IH(2) [OF _ 2(2-4) b] by simp
      then show ?thesis by (auto simp: d)
    qed
  }
qed

lemmas sample_file_defs = mainFile_def versionsFile_def providerBlock_def
  terraformBlock_def requiredProviders_def resourceBlock_def moduleBlock_def dataBlock_def
  literalAttr_def variableAttr_def bareAttr_def awsEast_def sampleError_def
  hashicorpAws_def exampleAws_def awsModule_def newDecodedModule_def sampleEnv_def

lemmas load_defs = loadModuleFromFile_def loadBlock_def loadTerraformBlock_def
  loadNestedBlock_def mergeRequirement_def multipleProviderSources_def
  loadProviderBlock_def loadDataBlock_def loadResourceBlock_def loadModuleBlock_def
  index_def MapKey_def decodeProviderAttribute_def inferProviderNameFromType_def

text \<open>
  C8. After a sequence of calls of \<^verbatim>\<open>loadModuleFromFile\<close> on one accumulator, the
  required-core sequence is the former one followed by the versions of the
  \<^verbatim>\<open>terraform\<close> blocks of the files, in the order of the files and of their blocks:
  a block contributes the decoded string of its \<^verbatim>\<open>required_version\<close> when the
  decoding reports no error, and nothing otherwise. Nothing is removed, and a repeated
  version is repeated. The diagnostics of every such decoding are among the returned
  diagnostics.
\<close>

theorem required_versions_in_order:
  assumes "loadModuleFromFiles E files md = Inr (md', diags)"
  shows "RequiredCore md' =
           RequiredCore md @ concat (map (\<lambda>f. requiredVersions (File.Blocks f)) files)
    \<and> (\<forall>f \<in> set files. \<forall>b \<in> set (File.Blocks f). \<forall>a.
          Block.Type b = ''terraform'' \<and> Attributes b ''required_version'' = Some a \<longrightarrow>
          set (snd (DecodeExpression (Expr a))) \<subseteq> set diags)"
  using loadModuleFromFiles_effect [OF assms] by blast

text \<open>
  Two files decoded into the empty accumulator: the first has the version ">= 0.12",
  the second a version that is not a literal and then ">= 0.12" again.
\<close>

theorem required_versions_in_order_witness:
  "\<exists>md' diags. loadModuleFromFiles sampleEnv [mainFile, versionsFile] newDecodedModule
        = Inr (md', diags)
     \<and> RequiredCore md' = [''>= 0.12'', ''>= 0.12'']
     \<and> map Summary diags = [''Variables not allowed'']"
proof -
  have "\<exists>md' diags. loadModuleFromFiles sampleEnv [mainFile, versionsFile] newDecodedModule
        = Inr (md', diags) \<and> map Summary diags = [''Variables not allowed'']"
    by (simp add: sample_file_defs load_defs)
  then obtain md' diags where
    r: "loadModuleFromFiles sampleEnv [mainFile, versionsFile] newDecodedModule = Inr (md', diags)"
    and d: "map Summary diags = [''Variables not allowed'']"
    by (elim exE conjE)
  have "RequiredCore md' = RequiredCore newDecodedModule
      @ concat (map (\<lambda>f. requiredVersions (File.Blocks f)) [mainFile, versionsFile])"
    using required_versions_in_order [OF r] by blast
  also have "\<dots> = [''>= 0.12'', ''>= 0.12'']"
    by (simp add: sample_file_defs requiredVersions_def requiredVersionOf_def)
  finally have c: "RequiredCore md' = [''>= 0.12'', ''>= 0.12'']" .
  show ?thesis
    by (rule exI [of _ md'], rule exI [of _ diags]) (intro conjI r c d)
qed

text \<open>
  C10. A call of \<^verbatim>\<open>loadModuleFromFile\<close> that returns keeps every key of the five
  maps of the accumulator, keeps the required-core sequence as a prefix of the new one,
  and keeps the constraints of every requirement as a prefix of the new constraints of
  the same name.
\<close>

theorem loadModuleFromFile_grows:
  assumes "loadModuleFromFile E file md = Inr (md', diags)"
  shows "dom (ProviderRequirements md) \<subseteq> dom (ProviderRequirements md')
    \<and> dom (ProviderConfigs md) \<subseteq> dom (ProviderConfigs md')
    \<and> dom (Resources md) \<subseteq> dom (Resources md')
    \<and> dom (DataSources md) \<subseteq> dom (DataSources md')
    \<and> dom (ModuleSources md) \<subseteq> dom (ModuleSources md')
    \<and> prefix (RequiredCore md) (RequiredCore md')
    \<and> (\<forall>n r. ProviderRequirements md n = Some r \<longrightarrow>
          (\<exists>r'. ProviderRequirements md' n = Some r'
             \<and> prefix (VersionConstraints r) (VersionConstraints r')))"
proof -
  have e: "RequiredCore md' = RequiredCore md @ requiredVersions (File.Blocks file)
    \<and> reqsGrow (ProviderRequirements md) (ProviderRequirements md')
    \<and> dom (ProviderConfigs md) \<subseteq> dom (ProviderConfigs md')
    \<and> dom (Resources md) \<subseteq> dom (Resources md')
    \<and> dom (DataSources md) \<subseteq> dom (DataSources md')
    \<and> dom (ModuleSources md) \<subseteq> dom (ModuleSources md')
    \<and> prefix (File.contentDiags file) diags"
    using assms unfolding loadModuleFromFile_def by (rule loadBlocks_effect)
  then have g: "reqsGrow (ProviderRequirements md) (ProviderRequirements md')"
    by blast
  have "prefix (RequiredCore md) (RequiredCore md')"
    using e by simp
  moreover have "dom (ProviderRequirements md) \<subseteq> dom (ProviderRequirements md')"
    using g by (rule reqsGrow_dom)
  moreover have "\<forall>n r. ProviderRequirements md n = Some r \<longrightarrow>
          (\<exists>r'. ProviderRequirements md' n = Some r'
             \<and> prefix (VersionConstraints r) (VersionConstraints r'))"
    using g by (simp add: reqsGrow_def)
  ultimately show ?thesis using e by blast
qed

text \<open>
  The first sample file decoded into an accumulator that holds a requirement for
  \<^verbatim>\<open>aws\<close>: the requirement stays, with its constraint first.
\<close>

theorem loadModuleFromFile_grows_witness:
  "\<exists>md' diags r'. loadModuleFromFile sampleEnv mainFile awsModule = Inr (md', diags)
     \<and> dom (ProviderRequirements awsModule) \<subseteq> dom (ProviderRequirements md')
     \<and> dom (Resources awsModule) \<subseteq> dom (Resources md')
     \<and> prefix (RequiredCore awsModule) (RequiredCore md')
     \<and> ProviderRequirements md' ''aws'' = Some r'
     \<and> prefix [''>= 2.0''] (VersionConstraints r')"
proof -
  have "\<exists>md' diags. loadModuleFromFile sampleEnv mainFile awsModule = Inr (md', diags)"
    by (simp add: sample_file_defs load_defs)
  then obtain md' diags where
    r: "loadModuleFromFile sampleEnv mainFile awsModule = Inr (md', diags)"
    by blast
  note g = loadModuleFromFile_grows [OF r]
  have "ProviderRequirements awsModule ''aws'' = Some hashicorpAws"
    by (simp add: awsModule_def)
  with g obtain r' where "ProviderRequirements md' ''aws'' = Some r'"
    and "prefix (VersionConstraints hashicorpAws) (VersionConstraints r')"
    by (elim conjE allE [of _ "''aws''"] allE [of _ hashicorpAws] impE exE)
  then have "loadModuleFromFile sampleEnv mainFile awsModule = Inr (md', diags)
     \<and> dom (ProviderRequirements awsModule) \<subseteq> dom (ProviderRequirements md')
     \<and> dom (Resources awsModule) \<subseteq> dom (Resources md')
     \<and> prefix (RequiredCore awsModule) (RequiredCore md')
     \<and> ProviderRequirements md' ''aws'' = Some r'
     \<and> prefix [''>= 2.0''] (VersionConstraints r')"
    using r g by (simp add: hashicorpAws_def)
  then show ?thesis
    by (intro exI)
qed

section \<open>Declarations under the same key\<close>

lemma loadBlock_cases [consumes 1, case_names terraform provider data resource module other]:
  assumes "loadBlock E b st = Inr st'"
  obtains
    "Block.Type b = ''terraform''" "loadTerraformBlock E b st = Inr st'"
  | "Block.Type b = ''provider''" "loadProviderBlock E b st = Inr st'"
  | "Block.Type b = ''data''" "loadDataBlock E b st = Inr st'"
  | "Block.Type b = ''resource''" "loadResourceBlock E b st = Inr st'"
  | "Block.Type b = ''module''" "loadModuleBlock E b st = Inr st'"
  | "Block.Type b \<noteq> ''terraform''" "Block.Type b \<noteq> ''provider''" "Block.Type b \<noteq> ''data''"
    "Block.Type b \<noteq> ''resource''" "Block.Type b \<noteq> ''module''" "st' = st"
proof (cases "Block.Type b = ''terraform''")
  case True
  with assms that(1) show ?thesis by (simp add: loadBlock_def)
next
  case nt: False
  show ?thesis
  proof (cases "Block.Type b = ''provider''")
    case True
    with assms that(2) show ?thesis by (simp add: loadBlock_def)
  next
    case np: False
    show ?thesis
    proof (cases "Block.Type b = ''data''")
      case True
      with assms that(3) show ?thesis by (simp add: loadBlock_def)
    next
      case nd: False
      show ?thesis
      proof (cases "Block.Type b = ''resource''")
        case True
        with assms that(4) show ?thesis by (simp add: loadBlock_def)
      next
        case nr: False
        show ?thesis
        proof (cases "Block.Type b = ''module''")
          case True
          with assms that(5) show ?thesis by (simp add: loadBlock_def)
        next
          case False
          with assms nt np nd nr that(6) show ?thesis by (simp add: loadBlock_def)
        qed
      qed
    qed
  qed
qed

text \<open>A block changes the entry of a key only when it stores under that key.\<close>

lemma loadBlock_Resources_other:
  assumes "loadBlock E c (md, ds) = Inr (md', ds')" and "resourceKey E c \<noteq> Some k"
  shows "Resources md' k = Resources md k"
  using assms(1)
proof (cases rule: loadBlock_cases)
  case terraform
  then show ?thesis using loadTerraformBlock_effect(3) by simp
next
  case provider
  then show ?thesis using loadProviderBlock_other(2) by simp
next
  case data
  obtain t n ls where l: "Labels c = t # n # ls"
    using loadDataBlock_labels [OF data(2)] by blast
  show ?thesis
    using data(2) by (auto simp: loadDataBlock_eq [OF l] split: option.splits sum.splits)
next
  case resource
  obtain t n ls where l: "Labels c = t # n # ls"
    using loadResourceBlock_labels [OF resource(2)] by blast
  show ?thesis
    using resource assms(2)
    by (auto simp: loadResourceBlock_eq [OF l] resourceKey_def l split: option.splits sum.splits)
next
  case module
  obtain n ls where l: "Labels c = n # ls"
    using loadModuleBlock_labels [OF module(2)] by blast
  show ?thesis
    using module(2) by (auto simp: loadModuleBlock_eq [OF l])
next
  case other
  then show ?thesis by simp
qed

lemma loadBlock_DataSources_other:
  assumes "loadBlock E c (md, ds) = Inr (md', ds')" and "dataSourceKey E c \<noteq> Some k"
  shows "DataSources md' k = DataSources md k"
  using assms(1)
proof (cases rule: loadBlock_cases)
  case terraform
  then show ?thesis using loadTerraformBlock_effect(4) by simp
next
  case provider
  then show ?thesis using loadProviderBlock_other(3) by simp
next
  case data
  obtain t n ls where l: "Labels c = t # n # ls"
    using loadDataBlock_labels [OF data(2)] by blast
  show ?thesis
    using data assms(2)
    by (auto simp: loadDataBlock_eq [OF l] dataSourceKey_def l split: option.splits sum.splits)
next
  case resource
  obtain t n ls where l: "Labels c = t # n # ls"
    using loadResourceBlock_labels [OF resource(2)] by blast
  show ?thesis
    using resource(2)
    by (auto simp: loadResourceBlock_eq [OF l] split: option.splits sum.splits)
next
  case module
  obtain n ls where l: "Labels c = n # ls"
    using loadModuleBlock_labels [OF module(2)] by blast
  show ?thesis
    using module(2) by (auto simp: loadModuleBlock_eq [OF l])
next
  case other
  then show ?thesis by simp
qed

lemma loadBlock_ModuleSources_other:
  assumes "loadBlock E c (md, ds) = Inr (md', ds')" and "moduleKey c \<noteq> Some k"
  shows "ModuleSources md' k = ModuleSources md k"
  using assms(1)
proof (cases rule: loadBlock_cases)
  case terraform
  then show ?thesis using loadTerraformBlock_effect(5) by simp
next
  case provider
  then show ?thesis using loadProviderBlock_other(4) by simp
next
  case data
  obtain t n ls where l: "Labels c = t # n # ls"
    using loadDataBlock_labels [OF data(2)] by blast
  show ?thesis
    using data(2) by (auto simp: loadDataBlock_eq [OF l] split: option.splits sum.splits)
next
  case resource
  obtain t n ls where l: "Labels c = t # n # ls"
    using loadResourceBlock_labels [OF resource(2)] by blast
  show ?thesis
    using resource(2)
    by (auto simp: loadResourceBlock_eq [OF l] split: option.splits sum.splits)
next
  case module
  obtain n ls where l: "Labels c = n # ls"
    using loadModuleBlock_labels [OF module(2)] by blast
  show ?thesis
    using module assms(2)
    by (auto simp: loadModuleBlock_eq [OF l] moduleKey_def l)
next
  case other
  then show ?thesis by simp
qed

lemma loadBlocks_other:
  assumes "loadBlocks E cs (md, ds) = Inr (md', ds')"
  shows "(\<forall>c \<in> set cs. resourceKey E c \<noteq> Some k) \<Longrightarrow> Resources md' k = Resources md k"
    and "(\<forall>c \<in> set cs. dataSourceKey E c \<noteq> Some k) \<Longrightarrow> DataSources md' k = DataSources md k"
    and "(\<forall>c \<in> set cs. moduleKey c \<noteq> Some k) \<Longrightarrow> ModuleSources md' k = ModuleSources md k"
  using assms
proof (induction cs arbitrary: md ds)
  case Nil
  {
    case 1 then show ?case by simp
  next
    case 2 then show ?case by simp
  next
    case 3 then show ?case by simp
  }
next
  case (Cons c cs)
  {
    case 1
    from 1(2) obtain md1 ds1 where
      a: "loadBlock E c (md, ds) = Inr (md1, ds1)" and
      b: "loadBlocks E cs (md1, ds1) = Inr (md', ds')"
      by (auto split: sum.splits)
    have "Resources md1 k = Resources md k"
      using a 1(1) by (simp add: loadBlock_Resources_other)
    moreover have "Resources md' k = Resources md1 k"
      using Cons.IH(1) [OF _ b] 1(1) by simp
    ultimately show ?case by simp
  next
    case 2
    from 2(2) obtain md1 ds1 where
      a: "loadBlock E c (md, ds) = Inr (md1, ds1)" and
      b: "loadBlocks E cs (md1, ds1) = Inr (md', ds')"
      by (auto split: sum.splits)
    have "DataSources md1 k = DataSources md k"
      using a 2(1) by (simp add: loadBlock_DataSources_other)
    moreover have "DataSources md' k = DataSources md1 k"
      using Cons.IH(2) [OF _ b] 2(1) by simp
    ultimately show ?case by simp
  next
    case 3
    from 3(2) obtain md1 ds1 where
      a: "loadBlock E c (md, ds) = Inr (md1, ds1)" and
      b: "loadBlocks E cs (md1, ds1) = Inr (md', ds')"
      by (auto split: sum.splits)
    have "ModuleSources md1 k = ModuleSources md k"
      using a 3(1) by (simp add: loadBlock_ModuleSources_other)
    moreover have "ModuleSources md' k = ModuleSources md1 k"
      using Cons.IH(3) [OF _ b] 3(1) by simp
    ultimately show ?case by simp
  }
qed

text \<open>The last block that stores under a key decides the entry of the key.\<close>

lemma last_resource:
  assumes "loadBlocks E (pre @ b # post) (md, ds) = Inr (md', ds')"
    and "Block.Type b = ''resource''" and "Labels b = t # n # ls"
    and "\<forall>c \<in> set post. resourceKey E c \<noteq> resourceKey E b"
  shows "\<exists>ref. Resources md'
            (resourceMapKey E \<lparr>resource.Type = t, resource.Name = n,
               resource.Provider = \<lparr>LocalName = '''', ProviderRef.Alias = ''''\<rparr>\<rparr>) =
          Some \<lparr>resource.Type = t, resource.Name = n, resource.Provider = ref\<rparr>
        \<and> (case Attributes b ''provider'' of
             None \<Rightarrow> ref = \<lparr>LocalName = inferProviderNameFromType t, ProviderRef.Alias = ''''\<rparr>
           | Some a \<Rightarrow> (\<exists>ad. decodeProviderAttribute E a = Inr (ref, ad)))"
proof -
  let ?k = "resourceMapKey E \<lparr>resource.Type = t, resource.Name = n,
               resource.Provider = \<lparr>LocalName = '''', ProviderRef.Alias = ''''\<rparr>\<rparr>"
  have kb: "resourceKey E b = Some ?k"
    by (simp add: resourceKey_def assms(2,3))
  from assms(1) obtain st1 md2 ds2 where
    1: "loadBlock E b st1 = Inr (md2, ds2)" and 2: "loadBlocks E post (md2, ds2) = Inr (md', ds')"
    by (elim loadBlocks_split) (cases rule: prod.exhaust, auto)
  obtain md1 ds1 where st1: "st1 = (md1, ds1)" by (cases st1)
  have r: "loadResourceBlock E b (md1, ds1) = Inr (md2, ds2)"
    using 1 assms(2) by (simp add: loadBlock_def st1)
  have "\<exists>ref. Resources md2 ?k =
          Some \<lparr>resource.Type = t, resource.Name = n, resource.Provider = ref\<rparr>
        \<and> (case Attributes b ''provider'' of
             None \<Rightarrow> ref = \<lparr>LocalName = inferProviderNameFromType t, ProviderRef.Alias = ''''\<rparr>
           | Some a \<Rightarrow> (\<exists>ad. decodeProviderAttribute E a = Inr (ref, ad)))"
    using r by (auto simp: loadResourceBlock_eq [OF assms(3)] split: option.splits sum.splits)
  moreover have "Resources md' ?k = Resources md2 ?k"
    using loadBlocks_other(1) [OF 2] assms(4) kb by simp
  ultimately show ?thesis by simp
qed

lemma last_data:
  assumes "loadBlocks E (pre @ b # post) (md, ds) = Inr (md', ds')"
    and "Block.Type b = ''data''" and "Labels b = t # n # ls"
    and "\<forall>c \<in> set post. dataSourceKey E c \<noteq> dataSourceKey E b"
  shows "\<exists>ref. DataSources md'
            (dataSourceMapKey E \<lparr>dataSource.Type = t, dataSource.Name = n,
               dataSource.Provider = \<lparr>LocalName = '''', ProviderRef.Alias = ''''\<rparr>\<rparr>) =
          Some \<lparr>dataSource.Type = t, dataSource.Name = n, dataSource.Provider = ref\<rparr>
        \<and> (case Attributes b ''provider'' of
             None \<Rightarrow> ref = \<lparr>LocalName = inferProviderNameFromType t, ProviderRef.Alias = ''''\<rparr>
           | Some a \<Rightarrow> (\<exists>ad. decodeProviderAttribute E a = Inr (ref, ad)))"
proof -
  let ?k = "dataSourceMapKey E \<lparr>dataSource.Type = t, dataSource.Name = n,
               dataSource.Provider = \<lparr>LocalName = '''', ProviderRef.Alias = ''''\<rparr>\<rparr>"
  have kb: "dataSourceKey E b = Some ?k"
    by (simp add: dataSourceKey_def assms(2,3))
  from assms(1) obtain st1 md2 ds2 where
    1: "loadBlock E b st1 = Inr (md2, ds2)" and 2: "loadBlocks E post (md2, ds2) = Inr (md', ds')"
    by (elim loadBlocks_split) (cases rule: prod.exhaust, auto)
  obtain md1 ds1 where st1: "st1 = (md1, ds1)" by (cases st1)
  have r: "loadDataBlock E b (md1, ds1) = Inr (md2, ds2)"
    using 1 assms(2) by (simp add: loadBlock_def st1)
  have "\<exists>ref. DataSources md2 ?k =
          Some \<lparr>dataSource.Type = t, dataSource.Name = n, dataSource.Provider = ref\<rparr>
        \<and> (case Attributes b ''provider'' of
             None \<Rightarrow> ref = \<lparr>LocalName = inferProviderNameFromType t, ProviderRef.Alias = ''''\<rparr>
           | Some a \<Rightarrow> (\<exists>ad. decodeProviderAttribute E a = Inr (ref, ad)))"
    using r by (auto simp: loadDataBlock_eq [OF assms(3)] split: option.splits sum.splits)
  moreover have "DataSources md' ?k = DataSources md2 ?k"
    using loadBlocks_other(2) [OF 2] assms(4) kb by simp
  ultimately show ?thesis by simp
qed

lemma last_module:
  assumes "loadBlocks E (pre @ b # post) (md, ds) = Inr (md', ds')"
    and "Block.Type b = ''module''" and "Labels b = n # ls"
    and "\<forall>c \<in> set post. moduleKey c \<noteq> moduleKey b"
  shows "ModuleSources md' (''module.'' @ n) =
          Some \<lparr>ModuleSource.Source =
                  (case Attributes b ''source'' of
                     None \<Rightarrow> '''' | Some a \<Rightarrow> fst (DecodeExpression (Expr a))),
                ModuleSource.Name = n\<rparr>"
proof -
  have kb: "moduleKey b = Some (''module.'' @ n)"
    by (simp add: moduleKey_def assms(2,3))
  from assms(1) obtain st1 md2 ds2 where
    1: "loadBlock E b st1 = Inr (md2, ds2)" and 2: "loadBlocks E post (md2, ds2) = Inr (md', ds')"
    by (elim loadBlocks_split) (cases rule: prod.exhaust, auto)
  obtain md1 ds1 where st1: "st1 = (md1, ds1)" by (cases st1)
  have r: "loadModuleBlock E b (md1, ds1) = Inr (md2, ds2)"
    using 1 assms(2) by (simp add: loadBlock_def st1)
  have "ModuleSources md2 (''module.'' @ n) =
          Some \<lparr>ModuleSource.Source =
                  (case Attributes b ''source'' of
                     None \<Rightarrow> '''' | Some a \<Rightarrow> fst (DecodeExpression (Expr a))),
                ModuleSource.Name = n\<rparr>"
    using r by (auto simp: loadModuleBlock_eq [OF assms(3)])
  moreover have "ModuleSources md' (''module.'' @ n) = ModuleSources md2 (''module.'' @ n)"
    using loadBlocks_other(3) [OF 2] assms(4) kb by simp
  ultimately show ?thesis by simp
qed

text \<open>
  The diagnostics of a \<^verbatim>\<open>resource\<close>, \<^verbatim>\<open>data\<close> or \<^verbatim>\<open>module\<close> block, and whether it
  panics, do not depend on the accumulator.
\<close>

lemma keyed_block_diags:
  assumes "Block.Type b = ''resource'' \<or> Block.Type b = ''data'' \<or> Block.Type b = ''module''"
  shows "map_sum id snd (loadBlock E b (md1, ds)) = map_sum id snd (loadBlock E b (md2, ds))"
proof -
  have r: "map_sum id snd (loadResourceBlock E b (md1, ds))
         = map_sum id snd (loadResourceBlock E b (md2, ds))"
    by (simp add: loadResourceBlock_def Let_def split: sum.splits option.splits prod.splits)
  have d: "map_sum id snd (loadDataBlock E b (md1, ds))
         = map_sum id snd (loadDataBlock E b (md2, ds))"
    by (simp add: loadDataBlock_def Let_def split: sum.splits option.splits prod.splits)
  have m: "map_sum id snd (loadModuleBlock E b (md1, ds))
         = map_sum id snd (loadModuleBlock E b (md2, ds))"
    by (simp add: loadModuleBlock_def Let_def split: sum.splits option.splits prod.splits)
  from assms show ?thesis
  proof (elim disjE)
    assume "Block.Type b = ''resource''"
    then show ?thesis using r by (simp add: loadBlock_def)
  next
    assume "Block.Type b = ''data''"
    then show ?thesis using d by (simp add: loadBlock_def)
  next
    assume "Block.Type b = ''module''"
    then show ?thesis using m by (simp add: loadBlock_def)
  qed
qed

text \<open>
  C7. Let a call of \<^verbatim>\<open>loadModuleFromFile\<close> return, and let \<open>b\<close> be the last block of
  the file that stores under its key (earlier blocks of the file, or the accumulator
  handed to the call, may hold the same key; in particular an earlier declaration with
  the same type and name does). Then the map holds under that key exactly the record of
  \<open>b\<close>: for a \<^verbatim>\<open>resource\<close> or \<^verbatim>\<open>data\<close> block its type, its name and its provider
  (resolved from the \<^verbatim>\<open>provider\<close> attribute, or inferred from the type); for a
  \<^verbatim>\<open>module\<close> block its name and its source. The diagnostics such a block adds, and
  whether it panics, are the same for every accumulator: none depends on the key being
  present.
\<close>

theorem redeclaration_overwrites:
  assumes "loadModuleFromFile E file md = Inr (md', diags)"
    and "File.Blocks file = pre @ b # post"
  shows "(Block.Type b = ''resource'' \<and> Labels b = t # n # ls
          \<and> (\<forall>c \<in> set post. resourceKey E c \<noteq> resourceKey E b) \<longrightarrow>
        (\<exists>ref. Resources md'
            (resourceMapKey E \<lparr>resource.Type = t, resource.Name = n,
               resource.Provider = \<lparr>LocalName = '''', ProviderRef.Alias = ''''\<rparr>\<rparr>) =
          Some \<lparr>resource.Type = t, resource.Name = n, resource.Provider = ref\<rparr>
        \<and> (case Attributes b ''provider'' of
             None \<Rightarrow> ref = \<lparr>LocalName = inferProviderNameFromType t, ProviderRef.Alias = ''''\<rparr>
           | Some a \<Rightarrow> (\<exists>ad. decodeProviderAttribute E a = Inr (ref, ad)))))
    \<and> (Block.Type b = ''data'' \<and> Labels b = t # n # ls
          \<and> (\<forall>c \<in> set post. dataSourceKey E c \<noteq> dataSourceKey E b) \<longrightarrow>
        (\<exists>ref. DataSources md'
            (dataSourceMapKey E \<lparr>dataSource.Type = t, dataSource.Name = n,
               dataSource.Provider = \<lparr>LocalName = '''', ProviderRef.Alias = ''''\<rparr>\<rparr>) =
          Some \<lparr>dataSource.Type = t, dataSource.Name = n, dataSource.Provider = ref\<rparr>
        \<and> (case Attributes b ''provider'' of
             None \<Rightarrow> ref = \<lparr>LocalName = inferProviderNameFromType t, ProviderRef.Alias = ''''\<rparr>
           | Some a \<Rightarrow> (\<exists>ad. decodeProviderAttribute E a = Inr (ref, ad)))))
    \<and> (Block.Type b = ''module'' \<and> Labels b = n # ls
          \<and> (\<forall>c \<in> set post. moduleKey c \<noteq> moduleKey b) \<longrightarrow>
        ModuleSources md' (''module.'' @ n) =
          Some \<lparr>ModuleSource.Source =
                  (case Attributes b ''source'' of
                     None \<Rightarrow> '''' | Some a \<Rightarrow> fst (DecodeExpression (Expr a))),
                ModuleSource.Name = n\<rparr>)
    \<and> (Block.Type b = ''resource'' \<or> Block.Type b = ''data'' \<or> Block.Type b = ''module'' \<longrightarrow>
        map_sum id snd (loadBlock E b (md1, ds)) = map_sum id snd (loadBlock E b (md2, ds)))"
proof -
  have r: "loadBlocks E (pre @ b # post) (md, File.contentDiags file) = Inr (md', diags)"
    using assms by (simp add: loadModuleFromFile_def)
  show ?thesis
  proof (intro conjI impI; (elim conjE)?)
    assume "Block.Type b = ''resource''" "Labels b = t # n # ls"
      "\<forall>c \<in> set post. resourceKey E c \<noteq> resourceKey E b"
    then show "\<exists>ref. Resources md'
            (resourceMapKey E \<lparr>resource.Type = t, resource.Name = n,
               resource.Provider = \<lparr>LocalName = '''', ProviderRef.Alias = ''''\<rparr>\<rparr>) =
          Some \<lparr>resource.Type = t, resource.Name = n, resource.Provider = ref\<rparr>
        \<and> (case Attributes b ''provider'' of
             None \<Rightarrow> ref = \<lparr>LocalName = inferProviderNameFromType t, ProviderRef.Alias = ''''\<rparr>
           | Some a \<Rightarrow> (\<exists>ad. decodeProviderAttribute E a = Inr (ref, ad)))"
      by (rule last_resource [OF r])
  next
    assume "Block.Type b = ''data''" "Labels b = t # n # ls"
      "\<forall>c \<in> set post. dataSourceKey E c \<noteq> dataSourceKey E b"
    then show "\<exists>ref. DataSources md'
            (dataSourceMapKey E \<lparr>dataSource.Type = t, dataSource.Name = n,
               dataSource.Provider = \<lparr>LocalName = '''', ProviderRef.Alias = ''''\<rparr>\<rparr>) =
          Some \<lparr>dataSource.Type = t, dataSource.Name = n, dataSource.Provider = ref\<rparr>
        \<and> (case Attributes b ''provider'' of
             None \<Rightarrow> ref = \<lparr>LocalName = inferProviderNameFromType t, ProviderRef.Alias = ''''\<rparr>
           | Some a \<Rightarrow> (\<exists>ad. decodeProviderAttribute E a = Inr (ref, ad)))"
      by (rule last_data [OF r])
  next
    assume "Block.Type b = ''module''" "Labels b = n # ls"
      "\<forall>c \<in> set post. moduleKey c \<noteq> moduleKey b"
    then show "ModuleSources md' (''module.'' @ n) =
          Some \<lparr>ModuleSource.Source =
                  (case Attributes b ''source'' of
                     None \<Rightarrow> '''' | Some a \<Rightarrow> fst (DecodeExpression (Expr a))),
                ModuleSource.Name = n\<rparr>"
      by (rule last_module [OF r])
  next
    assume "Block.Type b = ''resource'' \<or> Block.Type b = ''data'' \<or> Block.Type b = ''module''"
    then show "map_sum id snd (loadBlock E b (md1, ds)) = map_sum id snd (loadBlock E b (md2, ds))"
      by (rule keyed_block_diags)
  qed
qed

text \<open>
  The resource \<^verbatim>\<open>aws_instance.web\<close> declared twice in one file, the data source
  \<^verbatim>\<open>aws_ami.x\<close> declared twice, and the module call \<^verbatim>\<open>m\<close> declared twice in a file
  decoded into an accumulator that holds \<^verbatim>\<open>module.m\<close> already: the last declaration
  is the one in the map, and there is no diagnostic.
\<close>

theorem redeclaration_overwrites_witness:
  "(\<exists>md' diags. loadModuleFromFile sampleEnv mainFile newDecodedModule = Inr (md', diags)
      \<and> diags = []
      \<and> Resources md' ''aws_instance.web'' =
          Some \<lparr>resource.Type = ''aws_instance'', resource.Name = ''web'',
                resource.Provider = \<lparr>LocalName = ''aws'', ProviderRef.Alias = ''east''\<rparr>\<rparr>)
   \<and> (\<exists>md' diags. loadModuleFromFile sampleEnv redeclaredData newDecodedModule = Inr (md', diags)
      \<and> diags = []
      \<and> DataSources md' ''data.aws_ami.x'' =
          Some \<lparr>dataSource.Type = ''aws_ami'', dataSource.Name = ''x'',
                dataSource.Provider = \<lparr>LocalName = ''aws'', ProviderRef.Alias = ''east''\<rparr>\<rparr>)
   \<and> (\<exists>md' diags. loadModuleFromFile sampleEnv redeclaredModule earlierModule = Inr (md', diags)
      \<and> diags = []
      \<and> ModuleSources md' ''module.m'' =
          Some \<lparr>ModuleSource.Source = ''./b'', ModuleSource.Name = ''m''\<rparr>)
   \<and> map_sum id snd
         (loadBlock sampleEnv (moduleBlock ''m'' (Some (literalAttr ''./b''))) (earlierModule, []))
     = map_sum id snd
         (loadBlock sampleEnv (moduleBlock ''m'' (Some (literalAttr ''./b'')))
            (newDecodedModule, []))"
proof (intro conjI)
  have "\<exists>md' diags. loadModuleFromFile sampleEnv mainFile newDecodedModule = Inr (md', diags)
      \<and> diags = []"
    by (simp add: sample_file_defs load_defs)
  then obtain md' diags where
    r: "loadModuleFromFile sampleEnv mainFile newDecodedModule = Inr (md', diags)"
    and d: "diags = []"
    by (elim exE conjE)
  have b: "File.Blocks mainFile =
      [terraformBlock (Some (literalAttr ''>= 0.12'')) [requiredProviders [(''aws'', exampleAws)]],
       providerBlock ''aws'' (Some (literalAttr ''~> 2.0'')) (Some (literalAttr ''east'')),
       resourceBlock ''aws_instance'' ''web'' None,
       moduleBlock ''m'' (Some (literalAttr ''./child''))]
      @ resourceBlock ''aws_instance'' ''web'' (Some bareAttr) # []"
    by (simp add: mainFile_def)
  have "Resources md' ''aws_instance.web'' =
          Some \<lparr>resource.Type = ''aws_instance'', resource.Name = ''web'',
                resource.Provider = \<lparr>LocalName = ''aws'', ProviderRef.Alias = ''east''\<rparr>\<rparr>"
    using redeclaration_overwrites [OF r b, where t = "''aws_instance''" and n = "''web''"
        and ls = "[]"]
    by (simp add: resourceBlock_def sampleEnv_def bareAttr_def awsEast_def
        decodeProviderAttribute_def)
  then show "\<exists>md' diags. loadModuleFromFile sampleEnv mainFile newDecodedModule = Inr (md', diags)
      \<and> diags = []
      \<and> Resources md' ''aws_instance.web'' =
          Some \<lparr>resource.Type = ''aws_instance'', resource.Name = ''web'',
                resource.Provider = \<lparr>LocalName = ''aws'', ProviderRef.Alias = ''east''\<rparr>\<rparr>"
    using r d by (intro exI conjI)
next
  have "\<exists>md' diags. loadModuleFromFile sampleEnv redeclaredData newDecodedModule = Inr (md', diags)
      \<and> diags = []"
    by (simp add: redeclaredData_def quotedAttr_def sample_file_defs load_defs)
  then obtain md' diags where
    r: "loadModuleFromFile sampleEnv redeclaredData newDecodedModule = Inr (md', diags)"
    and d: "diags = []"
    by (elim exE conjE)
  have b: "File.Blocks redeclaredData =
      [dataBlock ''aws_ami'' ''x'' None] @ dataBlock ''aws_ami'' ''x'' (Some quotedAttr) # []"
    by (simp add: redeclaredData_def)
  have "DataSources md' ''data.aws_ami.x'' =
          Some \<lparr>dataSource.Type = ''aws_ami'', dataSource.Name = ''x'',
                dataSource.Provider = \<lparr>LocalName = ''aws'', ProviderRef.Alias = ''east''\<rparr>\<rparr>"
    using redeclaration_overwrites [OF r b, where t = "''aws_ami''" and n = "''x''"
        and ls = "[]"]
    by (simp add: dataBlock_def sampleEnv_def quotedAttr_def awsEast_def sampleError_def
        decodeProviderAttribute_def)
  then show "\<exists>md' diags. loadModuleFromFile sampleEnv redeclaredData newDecodedModule
        = Inr (md', diags)
      \<and> diags = []
      \<and> DataSources md' ''data.aws_ami.x'' =
          Some \<lparr>dataSource.Type = ''aws_ami'', dataSource.Name = ''x'',
                dataSource.Provider = \<lparr>LocalName = ''aws'', ProviderRef.Alias = ''east''\<rparr>\<rparr>"
    using r d by (intro exI conjI)
next
  have "\<exists>md' diags. loadModuleFromFile sampleEnv redeclaredModule earlierModule = Inr (md', diags)
      \<and> diags = []"
    by (simp add: redeclaredModule_def earlierModule_def sample_file_defs load_defs)
  then obtain md' diags where
    r: "loadModuleFromFile sampleEnv redeclaredModule earlierModule = Inr (md', diags)"
    and d: "diags = []"
    by (elim exE conjE)
  have b: "File.Blocks redeclaredModule =
      [moduleBlock ''m'' (Some (literalAttr ''./a''))]
      @ moduleBlock ''m'' (Some (literalAttr ''./b'')) # []"
    by (simp add: redeclaredModule_def)
  have "ModuleSources md' ''module.m'' =
          Some \<lparr>ModuleSource.Source = ''./b'', ModuleSource.Name = ''m''\<rparr>"
    using redeclaration_overwrites [OF r b, where n = "''m''" and ls = "[]"]
    by (simp add: moduleBlock_def literalAttr_def)
  then show "\<exists>md' diags. loadModuleFromFile sampleEnv redeclaredModule earlierModule
        = Inr (md', diags)
      \<and> diags = []
      \<and> ModuleSources md' ''module.m'' =
          Some \<lparr>ModuleSource.Source = ''./b'', ModuleSource.Name = ''m''\<rparr>"
    using r d by (intro exI conjI)
  show "map_sum id snd
         (loadBlock sampleEnv (moduleBlock ''m'' (Some (literalAttr ''./b''))) (earlierModule, []))
     = map_sum id snd
         (loadBlock sampleEnv (moduleBlock ''m'' (Some (literalAttr ''./b'')))
            (newDecodedModule, []))"
    using redeclaration_overwrites [OF r b, where ?md1.0 = earlierModule
        and ?md2.0 = newDecodedModule and ds = "[]"]
    by (simp add: moduleBlock_def)
qed

section \<open>The decoder returns on well-formed documents\<close>

lemma decodeProviderAttribute_returns:
  assumes "rootedAttribute E (Some a)"
  shows "\<exists>ref ad. decodeProviderAttribute E a = Inr (ref, ad)"
proof -
  obtain t0 d0 where x: "AbsTraversalForExpr (Expr a) = (t0, d0)"
    by (cases "AbsTraversalForExpr (Expr a)")
  obtain s dv where y: "DecodeExpression (Expr a) = (s, dv)"
    by (cases "DecodeExpression (Expr a)")
  obtain t1 d1 where z: "ParseTraversalAbs E s = (t1, d1)"
    by (cases "ParseTraversalAbs E s")
  have r0: "rooted t0" and r1: "rooted t1"
    using assms by (simp_all add: rootedAttribute_def x y z)
  show ?thesis
    using r0 r1
    by (cases t0; cases t1)
       (auto simp: decodeProviderAttribute_def x y z Let_def rooted_def
          split: Traverser.splits)
qed

lemma loadBlock_returns:
  assumes "wellFormed E b"
  shows "\<exists>md' ds'. loadBlock E b (md, ds) = Inr (md', ds')"
proof (cases "Block.Type b = ''terraform''")
  case True
  then show ?thesis
    using loadTerraformBlock_Inr [of E b "(md, ds)"] by (simp add: loadBlock_def)
next
  case nt: False
  show ?thesis
  proof (cases "Block.Type b = ''provider''")
    case True
    then have "1 \<le> length (Labels b)"
      using assms by (simp add: wellFormed_def)
    then have "Labels b \<noteq> []" by (cases "Labels b") auto
    then show ?thesis
      using True
      by (simp add: loadBlock_def loadProviderBlock_def index_def Let_def
          split: option.splits prod.splits)
  next
    case np: False
    show ?thesis
    proof (cases "Block.Type b = ''data''")
      case True
      then have "2 \<le> length (Labels b)" and a: "rootedAttribute E (Attributes b ''provider'')"
        using assms by (simp_all add: wellFormed_def)
      then obtain t n ls where l: "Labels b = t # n # ls"
        by (cases "Labels b"; cases "tl (Labels b)") auto
      show ?thesis
      proof (cases "Attributes b ''provider''")
        case None
        then show ?thesis
          using True by (simp add: loadBlock_def loadDataBlock_eq [OF l])
      next
        case (Some at)
        with a obtain ref ad where "decodeProviderAttribute E at = Inr (ref, ad)"
          using decodeProviderAttribute_returns by metis
        then show ?thesis
          using True Some by (simp add: loadBlock_def loadDataBlock_eq [OF l])
      qed
    next
      case nd: False
      show ?thesis
      proof (cases "Block.Type b = ''resource''")
        case True
        then have "2 \<le> length (Labels b)" and a: "rootedAttribute E (Attributes b ''provider'')"
          using assms by (simp_all add: wellFormed_def)
        then obtain t n ls where l: "Labels b = t # n # ls"
          by (cases "Labels b"; cases "tl (Labels b)") auto
        show ?thesis
        proof (cases "Attributes b ''provider''")
          case None
          then show ?thesis
            using True by (simp add: loadBlock_def loadResourceBlock_eq [OF l])
        next
          case (Some at)
          with a obtain ref ad where "decodeProviderAttribute E at = Inr (ref, ad)"
            using decodeProviderAttribute_returns by metis
          then show ?thesis
            using True Some by (simp add: loadBlock_def loadResourceBlock_eq [OF l])
        qed
      next
        case nr: False
        show ?thesis
        proof (cases "Block.Type b = ''module''")
          case True
          then have "1 \<le> length (Labels b)"
            using assms by (simp add: wellFormed_def)
          then obtain n ls where l: "Labels b = n # ls"
            by (cases "Labels b") auto
          show ?thesis
            using True by (simp add: loadBlock_def loadModuleBlock_eq [OF l])
        next
          case False
          with nt np nd nr show ?thesis by (simp add: loadBlock_def)
        qed
      qed
    qed
  qed
qed

lemma loadBlocks_returns:
  assumes "\<forall>b \<in> set bs. wellFormed E b"
  shows "\<exists>md' ds'. loadBlocks E bs (md, ds) = Inr (md', ds')"
  using assms
proof (induction bs arbitrary: md ds)
  case Nil
  show ?case by simp
next
  case (Cons b bs)
  then obtain md1 ds1 where "loadBlock E b (md, ds) = Inr (md1, ds1)"
    using loadBlock_returns [of E b md ds] by auto
  moreover obtain md' ds' where "loadBlocks E bs (md1, ds1) = Inr (md', ds')"
    using Cons.IH [of md1 ds1] Cons.prems by auto
  ultimately show ?case by simp
qed

text \<open>On a file whose blocks are well-formed the decoder does not panic.\<close>

lemma loadModuleFromFile_returns:
  assumes "\<forall>b \<in> set (File.Blocks file). wellFormed E b"
  shows "\<exists>md' diags. loadModuleFromFile E file md = Inr (md', diags)"
  using loadBlocks_returns [OF assms] by (simp add: loadModuleFromFile_def)

end
